theory Spec2Isabelle
  imports Complex_Main "HOL-Library.Multiset" "HOL-Library.Log_Nat"
begin

section \<open>Recommender scoring: \<open>score_wrapper\<close> (recsys/lesson5/config.py)\<close>

text \<open>
  \<open>score_wrapper(estimator, X, y=None)\<close> is the scoring callable handed to the
  hyper-parameter searchers. \<open>isinstance(estimator, Pipeline)\<close> is a case distinction on
  the estimator; any other Python object is carried by \<open>NotPipeline\<close>.
  \<open>Pipeline.predict\<close>, \<open>ndcg_score\<close> (utils.validation.metrics) and the constant
  \<open>constants.AT_K\<close> are not part of the two source files and are parameters; whatever they
  raise is carried by \<open>Raised\<close>. The two \<open>logging.info\<close> lines are not modelled.
\<close>

datatype ('p, 'o) estimator = Pipeline 'p | NotPipeline 'o

datatype ('o, 'x) score_error = ValueError 'o | Raised 'x

text \<open>
  \<open>DataFrame(X, columns=[USER_ID, ARTIST_ID]).groupby(USER_ID)[ARTIST_ID].agg(to_list)\<close>:
  pandas keeps one group per key, the groups ordered by key (\<open>sort=True\<close> is the default),
  the members of a group in their order of appearance. \<open>X\<close> is the array of
  (user id, item id) rows.
\<close>

fun add_to_group :: "'u::linorder \<Rightarrow> 'i \<Rightarrow> ('u \<times> 'i list) list \<Rightarrow> ('u \<times> 'i list) list" where
  "add_to_group u i [] = [(u, [i])]"
| "add_to_group u i ((k, items) # gs) =
     (if u = k then (k, items @ [i]) # gs
      else if u < k then (u, [i]) # (k, items) # gs
      else (k, items) # add_to_group u i gs)"

definition groupby_to_list :: "('u::linorder \<times> 'i) list \<Rightarrow> ('u \<times> 'i list) list" where
  "groupby_to_list X = foldl (\<lambda>gs (u, i). add_to_group u i gs) [] X"

definition score_wrapper ::
  "('p \<Rightarrow> ('u::linorder \<times> 'i) list \<Rightarrow> int \<Rightarrow> 'x + 'pred) \<Rightarrow>
   ('i list list \<Rightarrow> 'pred \<Rightarrow> int \<Rightarrow> 'x + 's) \<Rightarrow> int \<Rightarrow>
   ('p, 'o) estimator \<Rightarrow> ('u \<times> 'i) list \<Rightarrow> ('o, 'x) score_error + 's" where
  "score_wrapper predict ndcg_score AT_K estimator X =
     (case estimator of
        Pipeline p \<Rightarrow>
          (let y_true = map snd (groupby_to_list X) in
           case predict p X AT_K of
             Inl e \<Rightarrow> Inl (Raised e)
           | Inr y_pred \<Rightarrow>
               (case ndcg_score y_true y_pred AT_K of
                  Inl e \<Rightarrow> Inl (Raised e)
                | Inr score \<Rightarrow> Inr score))
      | NotPipeline obj \<Rightarrow> Inl (ValueError obj))"

text \<open>The items of one user, in the order of the rows of \<open>X\<close>.\<close>

definition items_of :: "('u \<times> 'i) list \<Rightarrow> 'u \<Rightarrow> 'i list" where
  "items_of X u = map snd (filter (\<lambda>r. fst r = u) X)"

section \<open>Campaign uplift pipeline (final/campaign/__main__.py)\<close>

subsection \<open>Values: frames, series, files\<close>

text \<open>
  A float cell is a rational number or NaN (\<open>None\<close>), which is how pandas stores a
  missing value. A DataFrame is its index labels (the customer ids) and its labelled
  columns; a Series is an index and one column of values.
\<close>

type_synonym path = string
type_synonym cell = "rat option"

record frame =
  index :: "int list"
  cols :: "(string \<times> cell list) list"

record series =
  s_index :: "int list"
  s_values :: "cell list"

definition columns :: "frame \<Rightarrow> string list" where
  "columns f = map fst (cols f)"

datatype pyerror =
    KeyError string
  | TypeError
  | LengthError
  | FileNotFoundError path
  | FileExistsError path
  | OverflowError
  | NanValueError
  | LibraryError string

text \<open>\<open>example_df\<close> of \<open>train\<close>: a copy of \<open>X\<close> and the five columns added to it.\<close>

record examples =
  ex_X :: frame
  ex_sample :: "string option list"
  ex_w :: "cell list"
  ex_y :: "cell list"
  ex_uplift :: "cell list"

text \<open>What \<open>to_csv\<close> was called on: the written file is modelled by the written object.\<close>

datatype csv_object =
    FrameCsv frame
  | HistCsv "((rat \<times> rat) \<times> nat) list"
  | MetricsCsv "(rat \<times> cell) list"
  | ExamplesCsv examples
  | IndexCsv "int list"

datatype 'p content =
    Directory
  | EmptyFile
  | CsvFile csv_object
  | ParquetFile frame
  | PickleFile 'p

subsection \<open>The world: files, module globals, and the trace of library calls\<close>

datatype event = Returns string | Raises string pyerror

text \<open>
  \<open>engine\<close> is the module's \<open>_engine\<close>; the four paths are the module globals
  \<open>_datapath\<close>, \<open>_metricspath\<close>, \<open>_artifactspath\<close>, \<open>_submitspath\<close>,
  which are \<open>None\<close> until \<open>_init\<close> has run. \<open>calls\<close> records the library calls in
  the order they are made, with how each ended.
\<close>

record ('p, 'e) world =
  fs :: "path \<rightharpoonup> 'p content"
  engine :: 'e
  datapath :: "path option"
  metricspath :: "path option"
  artifactspath :: "path option"
  submitspath :: "path option"
  calls :: "event list"

type_synonym ('a, 'p, 'e) task = "('p, 'e) world \<Rightarrow> (pyerror + 'a) \<times> ('p, 'e) world"

definition ret :: "'a \<Rightarrow> ('a, 'p, 'e) task" where
  "ret x = (\<lambda>w. (Inr x, w))"

text \<open>Sequencing: an exception ends the task, with the world as it is at that moment.\<close>

definition bnd :: "('a, 'p, 'e) task \<Rightarrow> ('a \<Rightarrow> ('b, 'p, 'e) task) \<Rightarrow> ('b, 'p, 'e) task" where
  "bnd m f = (\<lambda>w. case m w of (Inl e, w') \<Rightarrow> (Inl e, w') | (Inr x, w') \<Rightarrow> f x w')"

definition call :: "string \<Rightarrow> ('a, 'p, 'e) task \<Rightarrow> ('a, 'p, 'e) task" where
  "call nm act =
     (\<lambda>w. case act w of
        (Inl e, w') \<Rightarrow> (Inl e, w'\<lparr>calls := calls w' @ [Raises nm e]\<rparr>)
      | (Inr x, w') \<Rightarrow> (Inr x, w'\<lparr>calls := calls w' @ [Returns nm]\<rparr>))"

text \<open>A library call that neither reads nor changes the world.\<close>

definition lib :: "string \<Rightarrow> pyerror + 'a \<Rightarrow> ('a, 'p, 'e) task" where
  "lib nm r = call nm (\<lambda>w. (r, w))"

subsection \<open>Paths and files\<close>

text \<open>\<open>os.path.join(a, b)\<close> for two components (posixpath).\<close>

definition path_join :: "path \<Rightarrow> string \<Rightarrow> path" where
  "path_join a b =
     (if b \<noteq> [] \<and> hd b = CHR ''/'' then b
      else if a = [] \<or> last a = CHR ''/'' then a @ b
      else a @ ''/'' @ b)"

text \<open>\<open>os.path.join\<close> on a module global: \<open>None\<close> is a TypeError.\<close>

definition os_path_join :: "path option \<Rightarrow> string \<Rightarrow> pyerror + path" where
  "os_path_join g b = (case g of None \<Rightarrow> Inl TypeError | Some a \<Rightarrow> Inr (path_join a b))"

definition os_path_exists :: "path \<Rightarrow> (bool, 'p, 'e) task" where
  "os_path_exists p = (\<lambda>w. (Inr (fs w p \<noteq> None), w))"

definition os_mkdir :: "path \<Rightarrow> (unit, 'p, 'e) task" where
  "os_mkdir p =
     (\<lambda>w. case fs w p of
        Some c \<Rightarrow> (Inl (FileExistsError p), w)
      | None \<Rightarrow> (Inr (), w\<lparr>fs := (fs w)(p \<mapsto> Directory)\<rparr>))"

definition dd_read_csv :: "path \<Rightarrow> (frame, 'p, 'e) task" where
  "dd_read_csv p =
     (\<lambda>w. case fs w p of
        None \<Rightarrow> (Inl (FileNotFoundError p), w)
      | Some (CsvFile (FrameCsv f)) \<Rightarrow> (Inr f, w)
      | Some c \<Rightarrow> (Inl (LibraryError ''read_csv''), w))"

definition dd_read_parquet :: "path \<Rightarrow> (frame, 'p, 'e) task" where
  "dd_read_parquet p =
     (\<lambda>w. case fs w p of
        None \<Rightarrow> (Inl (FileNotFoundError p), w)
      | Some (ParquetFile f) \<Rightarrow> (Inr f, w)
      | Some c \<Rightarrow> (Inl (LibraryError ''read_parquet''), w))"

definition to_parquet :: "frame \<Rightarrow> path \<Rightarrow> (unit, 'p, 'e) task" where
  "to_parquet f p = (\<lambda>w. (Inr (), w\<lparr>fs := (fs w)(p \<mapsto> ParquetFile f)\<rparr>))"

definition to_csv :: "csv_object \<Rightarrow> path \<Rightarrow> (unit, 'p, 'e) task" where
  "to_csv obj p = (\<lambda>w. (Inr (), w\<lparr>fs := (fs w)(p \<mapsto> CsvFile obj)\<rparr>))"

text \<open>\<open>open(p, 'wb')\<close> creates or truncates the file; \<open>open(p, 'rb')\<close> needs it.\<close>

definition open_wb :: "path \<Rightarrow> (path, 'p, 'e) task" where
  "open_wb p = (\<lambda>w. (Inr p, w\<lparr>fs := (fs w)(p \<mapsto> EmptyFile)\<rparr>))"

definition open_rb :: "path \<Rightarrow> (path, 'p, 'e) task" where
  "open_rb p =
     (\<lambda>w. case fs w p of
        None \<Rightarrow> (Inl (FileNotFoundError p), w)
      | Some c \<Rightarrow> (Inr p, w))"

definition pickle_dump :: "'p \<Rightarrow> path \<Rightarrow> (unit, 'p, 'e) task" where
  "pickle_dump obj f = (\<lambda>w. (Inr (), w\<lparr>fs := (fs w)(f \<mapsto> PickleFile obj)\<rparr>))"

definition pickle_load :: "path \<Rightarrow> ('p, 'p, 'e) task" where
  "pickle_load f =
     (\<lambda>w. case fs w f of
        Some (PickleFile obj) \<Rightarrow> (Inr obj, w)
      | _ \<Rightarrow> (Inl (LibraryError ''pickle.load''), w))"

subsection \<open>The pandas operations the tasks use\<close>

text \<open>
  \<open>f.loc[:, f.columns[n:]]\<close> and \<open>f[f.columns[n:]]\<close> select by label: for each of the
  labels \<open>f.columns[n:]\<close>, the columns that carry it.
\<close>

definition loc_columns_from :: "nat \<Rightarrow> frame \<Rightarrow> frame" where
  "loc_columns_from n f =
     f\<lparr>cols := concat (map (\<lambda>l. filter (\<lambda>c. fst c = l) (cols f)) (drop n (columns f)))\<rparr>"

text \<open>
  \<open>f.loc[:, name]\<close> and \<open>f[name]\<close>: a missing label is a KeyError. (The labels of a
  frame stored as Parquet are distinct, so the label names one column.)
\<close>

definition loc_column :: "frame \<Rightarrow> string \<Rightarrow> pyerror + series" where
  "loc_column f name =
     (case map_of (cols f) name of
        None \<Rightarrow> Inl (KeyError name)
      | Some vs \<Rightarrow> Inr \<lparr>s_index = index f, s_values = vs\<rparr>)"

definition fillna :: "rat \<Rightarrow> series \<Rightarrow> series" where
  "fillna v s = s\<lparr>s_values := map (\<lambda>c. case c of None \<Rightarrow> Some v | Some x \<Rightarrow> Some x) (s_values s)\<rparr>"

text \<open>\<open>k * s\<close> and \<open>a - b\<close> on series of one frame (the same index): cell by cell, NaN stays NaN.\<close>

definition scale :: "rat \<Rightarrow> series \<Rightarrow> series" where
  "scale k s = s\<lparr>s_values := map (map_option (\<lambda>x. k * x)) (s_values s)\<rparr>"

definition minus_cell :: "cell \<Rightarrow> cell \<Rightarrow> cell" where
  "minus_cell a b = (case (a, b) of (Some x, Some y) \<Rightarrow> Some (x - y) | _ \<Rightarrow> None)"

definition minus_series :: "series \<Rightarrow> series \<Rightarrow> series" where
  "minus_series a b = a\<lparr>s_values := map2 minus_cell (s_values a) (s_values b)\<rparr>"

text \<open>\<open>f[name] = values\<close>: the lengths must agree; an existing label is overwritten.\<close>

definition set_column :: "frame \<Rightarrow> string \<Rightarrow> cell list \<Rightarrow> pyerror + frame" where
  "set_column f name vs =
     (if length vs \<noteq> length (index f) then Inl LengthError
      else if name \<in> set (columns f)
        then Inr (f\<lparr>cols := map (\<lambda>c. if fst c = name then (name, vs) else c) (cols f)\<rparr>)
      else Inr (f\<lparr>cols := cols f @ [(name, vs)]\<rparr>))"

text \<open>\<open>x > 0.0\<close> on a float: False for NaN.\<close>

definition gt_zero :: "cell \<Rightarrow> bool" where
  "gt_zero c = (case c of None \<Rightarrow> False | Some x \<Rightarrow> x > 0)"

definition by_mask :: "bool list \<Rightarrow> 'a list \<Rightarrow> 'a list" where
  "by_mask keep xs = map snd (filter fst (zip keep xs))"

text \<open>\<open>f.loc[mask, :]\<close>: the rows where the mask is True.\<close>

definition loc_rows :: "bool list \<Rightarrow> frame \<Rightarrow> frame" where
  "loc_rows keep f =
     \<lparr>index = by_mask keep (index f), cols = map (\<lambda>c. (fst c, by_mask keep (snd c))) (cols f)\<rparr>"

text \<open>\<open>xs[:n]\<close>: a negative \<open>n\<close> drops the last \<open>-n\<close>.\<close>

definition py_slice_to :: "int \<Rightarrow> 'a list \<Rightarrow> 'a list" where
  "py_slice_to n xs = (if n \<ge> 0 then take (nat n) xs else take (length xs - nat (- n)) xs)"

text \<open>A missing value counted as 0.\<close>

definition or_zero :: "cell \<Rightarrow> rat" where
  "or_zero c = (case c of None \<Rightarrow> 0 | Some x \<Rightarrow> x)"

text \<open>
  \<open>f.sort_values(by, ascending=False)\<close>. pandas takes the rows in the order of
  \<open>nargsort\<close> of the column \<open>by\<close>: the positions of the values that are not NaN in
  descending order of the value, then the positions of the NaN values in their own order
  (\<open>na_position='last'\<close>). The sorting kind is numpy's quicksort, which is not stable:
  the order in which rows of equal value come out is numpy's choice, and is the parameter
  \<open>ties\<close> here, a rank for every position (positions of equal value and equal rank keep
  their order). A missing label \<open>by\<close> is a KeyError.
\<close>

definition nargsort_descending :: "(nat \<Rightarrow> nat) \<Rightarrow> cell list \<Rightarrow> nat list" where
  "nargsort_descending ties key =
     sort_key (\<lambda>j. - or_zero (key ! j))
       (sort_key ties (filter (\<lambda>j. key ! j \<noteq> None) [0..<length key]))
     @ filter (\<lambda>j. key ! j = None) [0..<length key]"

definition take_rows :: "nat list \<Rightarrow> frame \<Rightarrow> frame" where
  "take_rows perm f =
     \<lparr>index = map (\<lambda>j. index f ! j) perm,
      cols = map (\<lambda>c. (fst c, map (\<lambda>j. snd c ! j) perm)) (cols f)\<rparr>"

definition sort_values_descending ::
  "(cell list \<Rightarrow> nat \<Rightarrow> nat) \<Rightarrow> frame \<Rightarrow> string \<Rightarrow> pyerror + frame" where
  "sort_values_descending ties f by =
     (case map_of (cols f) by of
        None \<Rightarrow> Inl (KeyError by)
      | Some key \<Rightarrow> Inr (take_rows (nargsort_descending (ties key) key) f))"

text \<open>\<open>pd.IntervalIndex.from_breaks(edges, closed='left')\<close> and \<open>pd.Series(data, index=...)\<close>.\<close>

definition from_breaks :: "rat list \<Rightarrow> (rat \<times> rat) list" where
  "from_breaks edges = zip edges (tl edges)"

definition pd_Series :: "'a list \<Rightarrow> 'b list \<Rightarrow> pyerror + ('b \<times> 'a) list" where
  "pd_Series data idx = (if length data \<noteq> length idx then Inl LengthError else Inr (zip idx data))"

text \<open>\<open>df.loc[labels, 'sample'] = value\<close>: every label must be in the index.\<close>

definition loc_set_sample ::
  "int list \<Rightarrow> string \<Rightarrow> int list \<Rightarrow> string option list \<Rightarrow> pyerror + string option list" where
  "loc_set_sample labels v idx col =
     (if set labels \<subseteq> set idx
      then Inr (map (\<lambda>(i, c). if i \<in> set labels then Some v else c) (zip idx col))
      else Inl (KeyError ''sample''))"

subsection \<open>Python numbers: \<open>int(N * config['cutoff'])\<close>\<close>

text \<open>
  A Python float is an IEEE 754 binary64 number: a finite value, an infinity or NaN (the
  sign of a zero is not kept; nothing here depends on it). \<open>to_float x\<close> is the double
  nearest to the rational \<open>x\<close>, ties going to the even significand: with
  \<open>2 ^ e \<le> x < 2 ^ (e + 1)\<close>, the doubles around \<open>x\<close> are the multiples of
  \<open>2 ^ (e - 52)\<close>, or of \<open>2 ^ (- 1074)\<close> in the subnormal range, and a result of
  \<open>2 ^ 1024\<close> or more is an infinity.
\<close>

datatype pyfloat = Finite rat | PlusInf | MinusInf | NaN

definition pow2 :: "int \<Rightarrow> rat" where
  "pow2 k = (if 0 \<le> k then 2 ^ nat k else 1 / 2 ^ nat (- k))"

definition floor_log2 :: "rat \<Rightarrow> int" where
  "floor_log2 x =
     (let (p, q) = quotient_of x; d = bitlen p - bitlen q
      in if x < pow2 d then d - 1 else d)"

definition round_half_even :: "rat \<Rightarrow> int" where
  "round_half_even x =
     (let f = \<lfloor>x\<rfloor>; r = x - of_int f
      in if r < 1 / 2 then f else if 1 / 2 < r then f + 1 else if even f then f else f + 1)"

definition nearest_double :: "rat \<Rightarrow> pyfloat" where
  "nearest_double x =
     (let q = pow2 (max (floor_log2 x - 52) (- 1074));
          y = of_int (round_half_even (x / q)) * q
      in if pow2 1024 \<le> y then PlusInf else Finite y)"

fun fneg :: "pyfloat \<Rightarrow> pyfloat" where
  "fneg (Finite x) = Finite (- x)"
| "fneg PlusInf = MinusInf"
| "fneg MinusInf = PlusInf"
| "fneg NaN = NaN"

definition to_float :: "rat \<Rightarrow> pyfloat" where
  "to_float x =
     (if x = 0 then Finite 0 else if 0 < x then nearest_double x
      else fneg (nearest_double (- x)))"

text \<open>The product of two floats: the exact product, rounded.\<close>

fun fmul :: "pyfloat \<Rightarrow> pyfloat \<Rightarrow> pyfloat" where
  "fmul NaN b = NaN"
| "fmul a NaN = NaN"
| "fmul (Finite a) (Finite b) = to_float (a * b)"
| "fmul (Finite a) PlusInf = (if a = 0 then NaN else if 0 < a then PlusInf else MinusInf)"
| "fmul (Finite a) MinusInf = (if a = 0 then NaN else if 0 < a then MinusInf else PlusInf)"
| "fmul PlusInf (Finite b) = (if b = 0 then NaN else if 0 < b then PlusInf else MinusInf)"
| "fmul MinusInf (Finite b) = (if b = 0 then NaN else if 0 < b then MinusInf else PlusInf)"
| "fmul PlusInf PlusInf = PlusInf"
| "fmul PlusInf MinusInf = MinusInf"
| "fmul MinusInf PlusInf = MinusInf"
| "fmul MinusInf MinusInf = PlusInf"

text \<open>
  A number of the YAML config, as it is written in the file: an integer, or a decimal
  literal, which \<open>yaml.load\<close> reads as the nearest double (the special floats
  \<open>.inf\<close> and \<open>.nan\<close> of YAML are left out). A Python number is an \<open>int\<close> or a
  \<open>float\<close>.
\<close>

datatype yaml_number = YamlInt int | YamlFloat rat

datatype pynumber = PyInt int | PyFloat pyfloat

definition yaml_load :: "yaml_number \<Rightarrow> pynumber" where
  "yaml_load c = (case c of YamlInt k \<Rightarrow> PyInt k | YamlFloat x \<Rightarrow> PyFloat (to_float x))"

text \<open>
  \<open>N * c\<close> for an \<open>int\<close> \<open>N\<close> that is not negative: the exact product with an
  \<open>int\<close>; with a \<open>float\<close>, \<open>N\<close> is first converted to a float (an OverflowError when
  it is too large) and the product is that of two floats.
\<close>

fun py_mul :: "nat \<Rightarrow> pynumber \<Rightarrow> pyerror + pynumber" where
  "py_mul N (PyInt k) = Inr (PyInt (int N * k))"
| "py_mul N (PyFloat c) =
     (case to_float (of_nat N) of
        Finite a \<Rightarrow> Inr (PyFloat (fmul (Finite a) c))
      | _ \<Rightarrow> Inl OverflowError)"

text \<open>
  \<open>int(x)\<close>: a float is truncated towards zero; an infinity is an OverflowError and NaN
  a ValueError.
\<close>

definition trunc_zero :: "rat \<Rightarrow> int" where
  "trunc_zero x = (if x \<ge> 0 then \<lfloor>x\<rfloor> else \<lceil>x\<rceil>)"

fun py_int :: "pynumber \<Rightarrow> pyerror + int" where
  "py_int (PyInt k) = Inr k"
| "py_int (PyFloat (Finite x)) = Inr (trunc_zero x)"
| "py_int (PyFloat NaN) = Inl NanValueError"
| "py_int (PyFloat PlusInf) = Inl OverflowError"
| "py_int (PyFloat MinusInf) = Inl OverflowError"

subsection \<open>Libraries, project helpers that are not in the source files, and the config\<close>

text \<open>
  \<open>compute_features\<close> (.featurise), \<open>build_pipeline\<close> (.estimators), \<open>uplift_at_k\<close>
  (.metrics) and the class \<open>Engine\<close> (.source) with its \<open>registerTable\<close> belong to the
  project but not to the two source files; they are parameters, like the calls into dask,
  scikit-learn, numpy and pandas whose results the tasks only pass on. \<open>'p\<close> is a
  pipeline object, \<open>'c\<close> a config entry describing a calcer or an estimator, \<open>'e\<close>
  the engine.

  A library is what these calls do in one run of the program. \<open>sample\<close> and
  \<open>train_test_split\<close> are given a random state. The others are given none: a call that
  draws random numbers (\<open>fit\<close> of a randomised estimator, say) can be another function
  in another run, which is modelled by another library. \<open>argsort_ties\<close> is the order in
  which numpy's quicksort leaves equal keys (see \<open>nargsort_descending\<close>).
\<close>

record ('p, 'c, 'e) library =
  compute_features :: "'c list \<Rightarrow> 'e \<Rightarrow> pyerror + frame"
  build_pipeline :: "'c list \<Rightarrow> pyerror + 'p"
  uplift_at_k :: "cell list \<Rightarrow> cell list \<Rightarrow> cell list \<Rightarrow> rat \<Rightarrow> pyerror + cell"
  registerTable :: "string \<Rightarrow> frame \<Rightarrow> 'e \<Rightarrow> 'e"
  sample :: "frame \<Rightarrow> rat \<Rightarrow> int \<Rightarrow> pyerror + frame"
  sk_Pipeline :: "(string \<times> 'p) list \<Rightarrow> 'p"
  train_test_split ::
    "frame \<Rightarrow> series \<Rightarrow> series \<Rightarrow> rat \<Rightarrow> int \<Rightarrow> series \<Rightarrow>
     pyerror + (frame \<times> frame \<times> series \<times> series \<times> series \<times> series)"
  fit :: "'p \<Rightarrow> frame \<Rightarrow> series \<Rightarrow> series \<Rightarrow> pyerror + 'p"
  predict :: "'p \<Rightarrow> frame \<Rightarrow> pyerror + cell list"
  np_histogram :: "cell list \<Rightarrow> nat \<Rightarrow> pyerror + (nat list \<times> rat list)"
  np_around :: "rat list \<Rightarrow> nat \<Rightarrow> rat list"
  np_arange :: "rat \<Rightarrow> rat \<Rightarrow> rat \<Rightarrow> pyerror + rat list"
  argsort_ties :: "cell list \<Rightarrow> nat \<Rightarrow> nat"

text \<open>
  The YAML config with the keys the tasks read (\<open>config['validation']['test_size']\<close>,
  \<open>config['evaluation']['bin_count']\<close> and \<open>config['evaluation']['cutoff_step']\<close>
  flattened). The numbers that are only handed on to a library are exact; \<open>cutoff\<close>,
  with which \<open>inference\<close> computes, is the number as written in the file.
\<close>

record 'c config =
  calcers :: "'c list"
  sample_frac :: rat
  transformers :: "'c list"
  selectors :: "'c list"
  model :: 'c
  validation_test_size :: rat
  evaluation_bin_count :: nat
  evaluation_cutoff_step :: rat
  cutoff :: yaml_number

definition random_state :: int where
  "random_state = 110894"

subsection \<open>\<open>_init\<close>\<close>

definition assign_globals :: "path \<Rightarrow> path \<Rightarrow> path \<Rightarrow> path \<Rightarrow> (unit, 'p, 'e) task" where
  "assign_globals dp mp ap sp =
     (\<lambda>w. (Inr (), w\<lparr>datapath := Some dp, metricspath := Some mp,
                      artifactspath := Some ap, submitspath := Some sp\<rparr>))"

fun mkdir_missing :: "path list \<Rightarrow> (unit, 'p, 'e) task" where
  "mkdir_missing [] = ret ()"
| "mkdir_missing (p # ps) =
     bnd (call ''os.path.exists'' (os_path_exists p)) (\<lambda>exists.
     bnd (if \<not> exists then call ''os.mkdir'' (os_mkdir p) else ret ()) (\<lambda>_.
     mkdir_missing ps))"

definition register :: "('p, 'c, 'e) library \<Rightarrow> string \<Rightarrow> frame \<Rightarrow> (unit, 'p, 'e) task" where
  "register L nm t = (\<lambda>w. (Inr (), w\<lparr>engine := registerTable L nm t (engine w)\<rparr>))"

definition init :: "('p, 'c, 'e) library \<Rightarrow> path \<Rightarrow> (unit, 'p, 'e) task" where
  "init L workpath =
     (let dp = path_join workpath ''data'';
          mp = path_join workpath ''metrics'';
          ap = path_join workpath ''artifacts'';
          sp = path_join workpath ''submits''
      in
      bnd (assign_globals dp mp ap sp) (\<lambda>_.
      bnd (mkdir_missing [ap, mp, sp]) (\<lambda>_.
      bnd (call ''dd.read_csv'' (dd_read_csv (path_join dp ''campaigns.csv''))) (\<lambda>campaigns.
      bnd (call ''Engine.registerTable'' (register L ''campaigns'' campaigns)) (\<lambda>_.
      bnd (call ''dd.read_csv'' (dd_read_csv (path_join dp ''customers.csv''))) (\<lambda>customers.
      bnd (call ''Engine.registerTable'' (register L ''customers'' customers)) (\<lambda>_.
      bnd (call ''dd.read_parquet'' (dd_read_parquet (path_join dp ''receipts.parquet''))) (\<lambda>receipts.
      call ''Engine.registerTable'' (register L ''receipts'' receipts)))))))))"

subsection \<open>The three tasks\<close>

definition global_join :: "(('p, 'e) world \<Rightarrow> path option) \<Rightarrow> string \<Rightarrow> (path, 'p, 'e) task" where
  "global_join g b = (\<lambda>w. (os_path_join (g w) b, w))"

definition featurize :: "('p, 'c, 'e) library \<Rightarrow> string \<Rightarrow> 'c config \<Rightarrow> (unit, 'p, 'e) task" where
  "featurize L name config =
     bnd (call ''compute_features'' (\<lambda>w. (compute_features L (calcers config) (engine w), w))) (\<lambda>features_dd.
     bnd (call ''os.path.join'' (global_join datapath (name @ ''_features.parquet''))) (\<lambda>p.
     call ''DataFrame.to_parquet'' (to_parquet features_dd p)))"

fun metrics_at ::
  "('p, 'c, 'e) library \<Rightarrow> cell list \<Rightarrow> cell list \<Rightarrow> cell list \<Rightarrow> rat list \<Rightarrow> (cell list, 'p, 'e) task" where
  "metrics_at L uplift wv yv [] = ret []"
| "metrics_at L uplift wv yv (k # ks) =
     bnd (lib ''uplift_at_k'' (uplift_at_k L uplift wv yv k)) (\<lambda>m.
     bnd (metrics_at L uplift wv yv ks) (\<lambda>ms.
     ret (m # ms)))"

definition train :: "('p, 'c, 'e) library \<Rightarrow> string \<Rightarrow> 'c config \<Rightarrow> (unit, 'p, 'e) task" where
  "train L name config =
     bnd (call ''os.path.join'' (global_join datapath (name @ ''_features.parquet''))) (\<lambda>p.
     bnd (call ''dd.read_parquet'' (dd_read_parquet p)) (\<lambda>features_dd.
     bnd (lib ''DataFrame.sample'' (sample L features_dd (sample_frac config) random_state)) (\<lambda>features_df.
     bnd (ret (loc_columns_from 3 features_df)) (\<lambda>X.
     bnd (lib ''DataFrame.loc'' (loc_column features_df ''target_group_flag'')) (\<lambda>flag.
     bnd (ret (fillna 0 flag)) (\<lambda>w.
     bnd (lib ''DataFrame.loc'' (loc_column features_df ''target_purchase_amt'')) (\<lambda>amt.
     bnd (lib ''DataFrame.loc'' (loc_column features_df ''target_discount_sum'')) (\<lambda>disc.
     bnd (lib ''DataFrame.loc'' (loc_column features_df ''target_group_flag'')) (\<lambda>flag'.
     bnd (ret (minus_series (minus_series (scale 28 (fillna 0 amt)) (fillna 0 disc))
                            (scale 1 (fillna 0 flag')))) (\<lambda>y.
     bnd (lib ''build_pipeline'' (build_pipeline L (transformers config))) (\<lambda>transform.
     bnd (lib ''build_pipeline'' (build_pipeline L (selectors config))) (\<lambda>select.
     bnd (lib ''build_pipeline'' (build_pipeline L [model config])) (\<lambda>model_step.
     bnd (ret (sk_Pipeline L [(''transform'', transform), (''select'', select), (''model'', model_step)])) (\<lambda>pipeline.
     bnd (lib ''train_test_split''
            (train_test_split L X y w (validation_test_size config) random_state w))
         (\<lambda>(X_train, X_test, y_train, y_test, w_train, w_test).
     bnd (lib ''Pipeline.fit'' (fit L pipeline X_train y_train w_train)) (\<lambda>pipeline.
     bnd (call ''os.path.join'' (global_join artifactspath (name @ ''_pipeline.pkl''))) (\<lambda>q.
     bnd (call ''open'' (open_wb q)) (\<lambda>f.
     bnd (call ''pickle.dump'' (pickle_dump pipeline f)) (\<lambda>_.
     bnd (lib ''Pipeline.predict'' (predict L pipeline X_test)) (\<lambda>uplift.
     bnd (lib ''numpy.histogram'' (np_histogram L uplift (evaluation_bin_count config))) (\<lambda>(hist, edges).
     bnd (ret (np_around L edges 2)) (\<lambda>edges.
     bnd (lib ''pandas.Series'' (pd_Series hist (from_breaks edges))) (\<lambda>hist_ss.
     bnd (ret (evaluation_cutoff_step config)) (\<lambda>cutoff_step.
     bnd (lib ''numpy.arange'' (np_arange L cutoff_step 1 cutoff_step)) (\<lambda>cutoffs.
     bnd (metrics_at L uplift (s_values w) (s_values y) cutoffs) (\<lambda>metrics.
     bnd (lib ''pandas.Series'' (pd_Series metrics cutoffs)) (\<lambda>metrics_ss.
     bnd (ret (replicate (length (index X)) None)) (\<lambda>sample_col.
     bnd (lib ''DataFrame.loc.__setitem__'' (loc_set_sample (index X_train) ''train'' (index X) sample_col)) (\<lambda>sample_col.
     bnd (lib ''DataFrame.loc.__setitem__'' (loc_set_sample (index X_test) ''test'' (index X) sample_col)) (\<lambda>sample_col.
     bnd (lib ''Pipeline.predict'' (predict L pipeline X)) (\<lambda>uplift_all.
     bnd (lib ''DataFrame.__setitem__''
            (if length uplift_all \<noteq> length (index X) then Inl LengthError
             else Inr \<lparr>ex_X = X, ex_sample = sample_col, ex_w = s_values w, ex_y = s_values y,
                       ex_uplift = uplift_all\<rparr>)) (\<lambda>example_df.
     bnd (call ''os.path.join'' (global_join metricspath (name @ ''_hist.csv''))) (\<lambda>hist_path.
     bnd (call ''Series.to_csv'' (to_csv (HistCsv hist_ss) hist_path)) (\<lambda>_.
     bnd (call ''os.path.join'' (global_join metricspath (name @ ''_metrics.csv''))) (\<lambda>metrics_path.
     bnd (call ''Series.to_csv'' (to_csv (MetricsCsv metrics_ss) metrics_path)) (\<lambda>_.
     bnd (call ''os.path.join'' (global_join metricspath (name @ ''_examples.csv''))) (\<lambda>examples_path.
     call ''DataFrame.to_csv'' (to_csv (ExamplesCsv example_df) examples_path)
     )))))))))))))))))))))))))))))))))))))"

definition inference :: "('p, 'c, 'e) library \<Rightarrow> string \<Rightarrow> 'c config \<Rightarrow> (unit, 'p, 'e) task" where
  "inference L name config =
     bnd (call ''os.path.join'' (global_join datapath (name @ ''_features.parquet''))) (\<lambda>p.
     bnd (call ''dd.read_parquet'' (dd_read_parquet p)) (\<lambda>features_dd.
     bnd (ret (loc_columns_from 3 features_dd)) (\<lambda>features_dd.
     bnd (call ''os.path.join'' (global_join artifactspath (name @ ''_pipeline.pkl''))) (\<lambda>q.
     bnd (call ''open'' (open_rb q)) (\<lambda>f.
     bnd (call ''pickle.load'' (pickle_load f)) (\<lambda>pipeline.
     bnd (ret features_dd) (\<lambda>features_df.
     bnd (lib ''Pipeline.predict'' (predict L pipeline features_df)) (\<lambda>uplift.
     bnd (lib ''DataFrame.__setitem__'' (set_column features_df ''uplift'' uplift)) (\<lambda>features_df.
     bnd (lib ''DataFrame.__getitem__'' (loc_column features_df ''uplift'')) (\<lambda>uplift_col.
     bnd (ret (loc_rows (map gt_zero (s_values uplift_col)) features_df)) (\<lambda>features_df.
     bnd (lib ''DataFrame.sort_values''
            (sort_values_descending (argsort_ties L) features_df ''uplift'')) (\<lambda>features_df.
     bnd (ret (length (index features_df))) (\<lambda>N.
     bnd (lib ''int.__mul__'' (py_mul N (yaml_load (cutoff config)))) (\<lambda>product.
     bnd (lib ''int'' (py_int product)) (\<lambda>n.
     bnd (ret (py_slice_to n (index features_df))) (\<lambda>customers.
     bnd (call ''os.path.join'' (global_join submitspath (name @ ''_submit.csv''))) (\<lambda>submit_path.
     call ''Series.to_csv'' (to_csv (IndexCsv customers) submit_path)
     )))))))))))))))))"

subsection \<open>A concrete library, config and worlds\<close>

text \<open>
  One instance of the parameters, on which the tasks can be run: the engine is the list
  of registered tables, a pipeline is a number, \<open>predict\<close> gives the customer with index
  \<open>i\<close> the uplift \<open>i - 12\<close>, \<open>train_test_split\<close> puts the first three rows into the
  training part, and rows of equal uplift stay in their order when they are sorted.
\<close>

definition frame0 :: frame where
  "frame0 = \<lparr>index = [11, 12, 13, 14, 15],
             cols = [(''target_group_flag'', [Some 1, Some 0, None, Some 1, Some 0]),
                     (''target_purchase_amt'', [Some 10, None, Some 3, Some 0, Some 2]),
                     (''target_discount_sum'', [Some 5, Some 1, None, Some 2, Some 0]),
                     (''age'', [Some 30, Some 41, Some 25, None, Some 52])]\<rparr>"

definition head_rows :: "nat \<Rightarrow> frame \<Rightarrow> frame" where
  "head_rows n f = \<lparr>index = take n (index f), cols = map (\<lambda>c. (fst c, take n (snd c))) (cols f)\<rparr>"

definition tail_rows :: "nat \<Rightarrow> frame \<Rightarrow> frame" where
  "tail_rows n f = \<lparr>index = drop n (index f), cols = map (\<lambda>c. (fst c, drop n (snd c))) (cols f)\<rparr>"

definition head_values :: "nat \<Rightarrow> series \<Rightarrow> series" where
  "head_values n s = \<lparr>s_index = take n (s_index s), s_values = take n (s_values s)\<rparr>"

definition tail_values :: "nat \<Rightarrow> series \<Rightarrow> series" where
  "tail_values n s = \<lparr>s_index = drop n (s_index s), s_values = drop n (s_values s)\<rparr>"

definition library0 :: "(nat, string, (string \<times> frame) list) library" where
  "library0 = \<lparr>
     compute_features = (\<lambda>cs e. if map_of e ''receipts'' = None then Inl (KeyError ''receipts'')
                                 else Inr frame0),
     build_pipeline = (\<lambda>cs. Inr (length cs)),
     uplift_at_k = (\<lambda>u wv yv k. Inr (Some k)),
     registerTable = (\<lambda>nm t e. e @ [(nm, t)]),
     sample = (\<lambda>f frac seed. Inr f),
     sk_Pipeline = (\<lambda>steps. length steps),
     train_test_split = (\<lambda>X y w ts seed strat.
        Inr (head_rows 3 X, tail_rows 3 X, head_values 3 y, tail_values 3 y,
             head_values 3 w, tail_values 3 w)),
     fit = (\<lambda>p X y w. Inr (Suc p)),
     predict = (\<lambda>p X. Inr (map (\<lambda>i. Some (of_int i - 12)) (index X))),
     np_histogram = (\<lambda>u b. Inr (replicate b 0, replicate (Suc b) 0)),
     np_around = (\<lambda>edges d. edges),
     np_arange = (\<lambda>start stop step. Inr [start]),
     argsort_ties = (\<lambda>key j. 0)\<rparr>"

text \<open>\<open>library1\<close>: the same calls in another run, in which \<open>fit\<close> ends otherwise.\<close>

definition library1 :: "(nat, string, (string \<times> frame) list) library" where
  "library1 = library0\<lparr>fit := (\<lambda>p X y w. Inr (Suc (Suc p)))\<rparr>"

definition config0 :: "string config" where
  "config0 = \<lparr>calcers = [''age''], sample_frac = 1, transformers = [], selectors = [],
              model = ''uplift'', validation_test_size = 1 / 2, evaluation_bin_count = 2,
              evaluation_cutoff_step = 1 / 2, cutoff = YamlFloat (1 / 2)\<rparr>"

text \<open>\<open>world0\<close>: before \<open>_init\<close>, with the three source tables under \<open>wd/data\<close>.\<close>

definition world0 :: "(nat, (string \<times> frame) list) world" where
  "world0 = \<lparr>fs = [''wd/data/campaigns.csv'' \<mapsto> CsvFile (FrameCsv \<lparr>index = [0], cols = []\<rparr>),
                   ''wd/data/customers.csv'' \<mapsto> CsvFile (FrameCsv \<lparr>index = [1], cols = []\<rparr>),
                   ''wd/data/receipts.parquet'' \<mapsto> ParquetFile \<lparr>index = [2], cols = []\<rparr>],
             engine = [], datapath = None, metricspath = None, artifactspath = None,
             submitspath = None, calls = []\<rparr>"

text \<open>\<open>world1\<close>: after \<open>_init\<close> has run in \<open>world0\<close> with the work directory \<open>wd\<close>.\<close>

definition world1 :: "(nat, (string \<times> frame) list) world" where
  "world1 = \<lparr>fs = [''wd/data/campaigns.csv'' \<mapsto> CsvFile (FrameCsv \<lparr>index = [0], cols = []\<rparr>),
                   ''wd/data/customers.csv'' \<mapsto> CsvFile (FrameCsv \<lparr>index = [1], cols = []\<rparr>),
                   ''wd/data/receipts.parquet'' \<mapsto> ParquetFile \<lparr>index = [2], cols = []\<rparr>,
                   ''wd/artifacts'' \<mapsto> Directory,
                   ''wd/metrics'' \<mapsto> Directory,
                   ''wd/submits'' \<mapsto> Directory],
             engine = [(''campaigns'', \<lparr>index = [0], cols = []\<rparr>),
                       (''customers'', \<lparr>index = [1], cols = []\<rparr>),
                       (''receipts'', \<lparr>index = [2], cols = []\<rparr>)],
             datapath = Some ''wd/data'', metricspath = Some ''wd/metrics'',
             artifactspath = Some ''wd/artifacts'', submitspath = Some ''wd/submits'',
             calls = map Returns [''os.path.exists'', ''os.mkdir'', ''os.path.exists'', ''os.mkdir'',
                                  ''os.path.exists'', ''os.mkdir'', ''dd.read_csv'',
                                  ''Engine.registerTable'', ''dd.read_csv'', ''Engine.registerTable'',
                                  ''dd.read_parquet'', ''Engine.registerTable'']\<rparr>"

text \<open>\<open>world2\<close>: \<open>world1\<close> with a features file and a pickled pipeline for the name \<open>run\<close>.\<close>

definition world2 :: "(nat, (string \<times> frame) list) world" where
  "world2 = world1\<lparr>fs := (fs world1)(''wd/data/run_features.parquet'' \<mapsto> ParquetFile frame0,
                                       ''wd/artifacts/run_pipeline.pkl'' \<mapsto> PickleFile 7)\<rparr>"

text \<open>
  \<open>world2\<close> after \<open>train\<close> has run for the name \<open>run\<close> with \<open>config0\<close> and has
  pickled the pipeline \<open>p\<close>; \<open>world3\<close> is where the run with \<open>library0\<close> ends,
  \<open>world4\<close> where the run with \<open>library1\<close> ends.
\<close>

definition trained :: "nat \<Rightarrow> (nat, (string \<times> frame) list) world" where
  "trained p = world2\<lparr>
     fs := (fs world2)
       (''wd/artifacts/run_pipeline.pkl'' \<mapsto> PickleFile p,
        ''wd/metrics/run_hist.csv'' \<mapsto> CsvFile (HistCsv [((0, 0), 0), ((0, 0), 0)]),
        ''wd/metrics/run_metrics.csv'' \<mapsto> CsvFile (MetricsCsv [(1 / 2, Some (1 / 2))]),
        ''wd/metrics/run_examples.csv'' \<mapsto> CsvFile (ExamplesCsv
           \<lparr>ex_X = \<lparr>index = [11, 12, 13, 14, 15],
                     cols = [(''age'', [Some 30, Some 41, Some 25, None, Some 52])]\<rparr>,
              ex_sample = [Some ''train'', Some ''train'', Some ''train'', Some ''test'', Some ''test''],
              ex_w = [Some 1, Some 0, Some 0, Some 1, Some 0],
              ex_y = [Some 274, Some (- 1), Some 84, Some (- 3), Some 56],
              ex_uplift = [Some (- 1), Some 0, Some 1, Some 2, Some 3]\<rparr>)),
     calls := calls world2 @ map Returns
       [''os.path.join'', ''dd.read_parquet'', ''DataFrame.sample'', ''DataFrame.loc'',
        ''DataFrame.loc'', ''DataFrame.loc'', ''DataFrame.loc'', ''build_pipeline'',
        ''build_pipeline'', ''build_pipeline'', ''train_test_split'', ''Pipeline.fit'',
        ''os.path.join'', ''open'', ''pickle.dump'', ''Pipeline.predict'', ''numpy.histogram'',
        ''pandas.Series'', ''numpy.arange'', ''uplift_at_k'', ''pandas.Series'',
        ''DataFrame.loc.__setitem__'', ''DataFrame.loc.__setitem__'', ''Pipeline.predict'',
        ''DataFrame.__setitem__'', ''os.path.join'', ''Series.to_csv'', ''os.path.join'',
        ''Series.to_csv'', ''os.path.join'', ''DataFrame.to_csv'']\<rparr>"

definition world3 :: "(nat, (string \<times> frame) list) world" where
  "world3 = trained 4"

definition world4 :: "(nat, (string \<times> frame) list) world" where
  "world4 = trained 5"

subsection \<open>Notions used in the statements\<close>

text \<open>
  The trace of a task: every library call appends \<open>Returns\<close> or \<open>Raises\<close>. A task
  propagates errors when its result is an error exactly if its last call raised that
  error, every earlier call having returned.
\<close>

definition returned :: "event \<Rightarrow> bool" where
  "returned ev = (case ev of Returns nm \<Rightarrow> True | Raises nm e \<Rightarrow> False)"

definition outcome_logged :: "event list \<Rightarrow> pyerror + 'a \<Rightarrow> bool" where
  "outcome_logged evs r =
     (case r of
        Inl e \<Rightarrow> (\<exists>pre nm. evs = pre @ [Raises nm e] \<and> list_all returned pre)
      | Inr x \<Rightarrow> list_all returned evs)"

definition propagates :: "('a, 'p, 'e) task \<Rightarrow> bool" where
  "propagates m \<longleftrightarrow>
     (\<forall>w. \<exists>evs. calls (snd (m w)) = calls w @ evs \<and> outcome_logged evs (fst (m w)))"

definition quiet :: "('a, 'p, 'e) task \<Rightarrow> bool" where
  "quiet act \<longleftrightarrow> (\<forall>w. calls (snd (act w)) = calls w)"

text \<open>The pipeline is scored before it is persisted: a scoring call precedes \<open>pickle.dump\<close>.\<close>

definition scored_before_persisted :: "event list \<Rightarrow> bool" where
  "scored_before_persisted evs \<longleftrightarrow>
     Returns ''pickle.dump'' \<in> set evs \<and>
     (Returns ''Pipeline.predict'' \<in> set (takeWhile (\<lambda>ev. ev \<noteq> Returns ''pickle.dump'') evs) \<or>
      Returns ''uplift_at_k'' \<in> set (takeWhile (\<lambda>ev. ev \<noteq> Returns ''pickle.dump'') evs))"

text \<open>Every file that a task changed is a CSV file afterwards.\<close>

definition writes_only_csv :: "('p, 'e) world \<Rightarrow> ('p, 'e) world \<Rightarrow> bool" where
  "writes_only_csv w w' \<longleftrightarrow> (\<forall>p. fs w' p = fs w p \<or> (\<exists>obj. fs w' p = Some (CsvFile obj)))"

text \<open>
  The value of a number of the config as it is written, and the value of a Python number
  that is finite. The rows of a frame in descending order of a value.
\<close>

definition yaml_value :: "yaml_number \<Rightarrow> rat" where
  "yaml_value c = (case c of YamlInt k \<Rightarrow> of_int k | YamlFloat x \<Rightarrow> x)"

fun number_value :: "pynumber \<Rightarrow> rat option" where
  "number_value (PyInt k) = Some (of_int k)"
| "number_value (PyFloat (Finite x)) = Some x"
| "number_value (PyFloat PlusInf) = None"
| "number_value (PyFloat MinusInf) = None"
| "number_value (PyFloat NaN) = None"

definition descending :: "('a \<Rightarrow> rat) \<Rightarrow> 'a list \<Rightarrow> bool" where
  "descending v rows = sorted_wrt (\<lambda>a b. v b \<le> v a) rows"

text \<open>
  What a run does to the world, as a list: the library calls it logs and the files it
  writes. Two runs are the same when they end with the same result and the same effects.
\<close>

datatype 'p effect = Logged event | Wrote path "'p content"

fun apply_effect :: "('p, 'e) world \<Rightarrow> 'p effect \<Rightarrow> ('p, 'e) world" where
  "apply_effect w (Logged ev) = w\<lparr>calls := calls w @ [ev]\<rparr>"
| "apply_effect w (Wrote p c) = w\<lparr>fs := (fs w)(p \<mapsto> c)\<rparr>"

definition apply_effects :: "'p effect list \<Rightarrow> ('p, 'e) world \<Rightarrow> ('p, 'e) world" where
  "apply_effects effs w = foldl apply_effect w effs"

definition same_run ::
  "('a, 'p, 'e) task \<Rightarrow> ('a, 'p, 'e) task \<Rightarrow> ('p, 'e) world \<Rightarrow> ('p, 'e) world \<Rightarrow> bool" where
  "same_run m1 m2 w1 w2 \<longleftrightarrow>
     (\<exists>r effs. m1 w1 = (r, apply_effects effs w1) \<and> m2 w2 = (r, apply_effects effs w2))"

text \<open>The features file of \<open>name\<close>, and two worlds that \<open>train\<close> cannot tell apart.\<close>

definition features_file :: "string \<Rightarrow> ('p, 'e) world \<Rightarrow> 'p content option" where
  "features_file name w =
     (case datapath w of
        None \<Rightarrow> None
      | Some dp \<Rightarrow> fs w (path_join dp (name @ ''_features.parquet'')))"

definition alike :: "string \<Rightarrow> ('p, 'e) world \<Rightarrow> ('p, 'e) world \<Rightarrow> bool" where
  "alike name w1 w2 \<longleftrightarrow>
     datapath w1 = datapath w2 \<and> metricspath w1 = metricspath w2 \<and>
     artifactspath w1 = artifactspath w2 \<and> features_file name w1 = features_file name w2"

definition determined :: "string \<Rightarrow> ('a, 'p, 'e) task \<Rightarrow> bool" where
  "determined name m \<longleftrightarrow> (\<forall>w1 w2. alike name w1 w2 \<longrightarrow> same_run m m w1 w2)"

text \<open>
  Two libraries in which the two calls that are given a random state do the same for the
  random state \<open>seed\<close>; and two libraries in which moreover the calls of \<open>train\<close>
  that are given no random state do the same.
\<close>

definition same_seeded :: "int \<Rightarrow> ('p, 'c, 'e) library \<Rightarrow> ('p, 'c, 'e) library \<Rightarrow> bool" where
  "same_seeded seed L L' \<longleftrightarrow>
     (\<forall>f frac. sample L' f frac seed = sample L f frac seed) \<and>
     (\<forall>X y w ts strat. train_test_split L' X y w ts seed strat = train_test_split L X y w ts seed strat)"

definition same_at_seed :: "int \<Rightarrow> ('p, 'c, 'e) library \<Rightarrow> ('p, 'c, 'e) library \<Rightarrow> bool" where
  "same_at_seed seed L L' \<longleftrightarrow>
     (\<forall>f frac. sample L' f frac seed = sample L f frac seed) \<and>
     (\<forall>X y w ts strat. train_test_split L' X y w ts seed strat = train_test_split L X y w ts seed strat) \<and>
     build_pipeline L' = build_pipeline L \<and> sk_Pipeline L' = sk_Pipeline L \<and>
     fit L' = fit L \<and> predict L' = predict L \<and> np_histogram L' = np_histogram L \<and>
     np_around L' = np_around L \<and> np_arange L' = np_arange L \<and> uplift_at_k L' = uplift_at_k L"


section \<open>Properties of \<open>score_wrapper\<close>\<close>

subsection \<open>Grouping by user id\<close>

lemma keys_add_to_group:
  "set (map fst (add_to_group u i gs)) = insert u (set (map fst gs))"
  by (induction u i gs rule: add_to_group.induct) auto

lemma strict_sorted_add_to_group:
  "sorted_wrt (<) (map fst gs) \<Longrightarrow> sorted_wrt (<) (map fst (add_to_group u i gs))"
proof (induction gs)
  case Nil
  then show ?case by simp
next
  case (Cons g gs)
  obtain k items where g: "g = (k, items)" by (cases g)
  from Cons show ?case
    unfolding g using keys_add_to_group [of u i gs] by (auto simp del: set_map)
qed

lemma map_of_add_to_group:
  "sorted_wrt (<) (map fst gs) \<Longrightarrow>
   map_of (add_to_group u i gs) =
     (map_of gs)(u \<mapsto> (case map_of gs u of None \<Rightarrow> [i] | Some items \<Rightarrow> items @ [i]))"
proof (induction gs)
  case Nil
  then show ?case by simp
next
  case (Cons g gs)
  obtain k items where g: "g = (k, items)" by (cases g)
  have later: "u < k \<Longrightarrow> map_of gs u = None"
    using Cons.prems unfolding g by (force simp: map_of_eq_None_iff)
  from Cons later show ?case
    unfolding g by (auto simp: fun_eq_iff)
qed

lemma groupby_snoc:
  "groupby_to_list (X @ [(u, i)]) = add_to_group u i (groupby_to_list X)"
  by (simp add: groupby_to_list_def)

lemma groupby_sorted: "sorted_wrt (<) (map fst (groupby_to_list X))"
proof (induction X rule: rev_induct)
  case Nil
  then show ?case by (simp add: groupby_to_list_def)
next
  case (snoc r X)
  then show ?case by (cases r) (simp add: groupby_snoc strict_sorted_add_to_group)
qed

lemma groupby_keys: "set (map fst (groupby_to_list X)) = fst ` set X"
proof (induction X rule: rev_induct)
  case Nil
  then show ?case by (simp add: groupby_to_list_def)
next
  case (snoc r X)
  then show ?case
    by (cases r) (simp add: groupby_snoc keys_add_to_group del: set_map)
qed

lemma groupby_map_of:
  "map_of (groupby_to_list X) u = (if u \<in> fst ` set X then Some (items_of X u) else None)"
proof (induction X rule: rev_induct)
  case Nil
  then show ?case by (simp add: groupby_to_list_def)
next
  case (snoc r X)
  obtain v i where r: "r = (v, i)" by (cases r)
  show ?case
    unfolding r groupby_snoc
    using snoc
    by (auto simp: map_of_add_to_group [OF groupby_sorted] items_of_def filter_empty_conv
          image_iff)
qed

lemma groupby_users:
  "map fst (groupby_to_list X) = sorted_list_of_set (fst ` set X)"
proof -
  have "sorted_wrt (<) (map fst (groupby_to_list X))" by (rule groupby_sorted)
  moreover have "set (map fst (groupby_to_list X)) = fst ` set X" by (rule groupby_keys)
  ultimately show ?thesis
    by (metis sorted_list_of_set.idem_if_sorted_distinct strict_sorted_iff)
qed

lemma groupby_lists:
  "map snd (groupby_to_list X) = map (items_of X) (map fst (groupby_to_list X))"
proof -
  have d: "distinct (map fst (groupby_to_list X))"
    using groupby_sorted [of X] by (simp add: strict_sorted_iff)
  have "\<forall>g \<in> set (groupby_to_list X). snd g = items_of X (fst g)"
  proof
    fix g assume g: "g \<in> set (groupby_to_list X)"
    have "map_of (groupby_to_list X) (fst g) = Some (snd g)"
      using d g by simp
    then show "snd g = items_of X (fst g)"
      by (simp add: groupby_map_of split: if_splits)
  qed
  then show ?thesis by simp
qed

lemma groupby_to_list_example:
  "groupby_to_list [(3 :: nat, 1 :: nat), (1, 5), (3, 2), (2, 7), (1, 1)] =
     [(1, [5, 1]), (2, [7]), (3, [1, 2])]"
  by (simp add: groupby_to_list_def)

subsection \<open>The two branches of \<open>score_wrapper\<close>\<close>

text \<open>
  Claim C4. For an estimator that is a Pipeline and any interactions array \<open>X\<close>,
  \<open>score_wrapper\<close> is \<open>ndcg_score\<close> at \<open>k = AT_K\<close> of the estimator's predictions
  \<open>predict(X, k=AT_K)\<close> against the ground truth that holds, for each user id of \<open>X\<close>
  (in ascending order), the list of that user's items; an exception of \<open>predict\<close> or
  of \<open>ndcg_score\<close> leaves \<open>score_wrapper\<close> as it is.
\<close>

theorem score_wrapper_pipeline_ndcg:
  "score_wrapper pred ndcg AT_K (Pipeline p) X =
     (case pred p X AT_K of
        Inl e \<Rightarrow> Inl (Raised e)
      | Inr y_pred \<Rightarrow>
          (case ndcg (map (items_of X) (sorted_list_of_set (fst ` set X))) y_pred AT_K of
             Inl e \<Rightarrow> Inl (Raised e)
           | Inr score \<Rightarrow> Inr score))"
  by (simp add: score_wrapper_def groupby_lists groupby_users)

text \<open>
  Claim C10. For an estimator that is not a Pipeline, \<open>score_wrapper\<close> raises
  \<open>ValueError(estimator)\<close> whatever \<open>X\<close> is, and so returns no score.
\<close>

theorem score_wrapper_not_pipeline:
  "score_wrapper pred ndcg AT_K (NotPipeline obj) X = Inl (ValueError obj) \<and>
   (\<forall>score. score_wrapper pred ndcg AT_K (NotPipeline obj) X \<noteq> Inr score)"
  by (simp add: score_wrapper_def)

section \<open>Properties of the campaign tasks\<close>

subsection \<open>Running a task forwards\<close>

lemma bnd_ret [simp]: "bnd (ret x) f w = f x w"
  by (simp add: bnd_def ret_def)

lemma bnd_lib_Inr: "bnd (lib nm (Inr x)) f w = f x (w\<lparr>calls := calls w @ [Returns nm]\<rparr>)"
  by (simp add: bnd_def lib_def call_def)

lemma bnd_lib_Inl: "bnd (lib nm (Inl e)) f w = (Inl e, w\<lparr>calls := calls w @ [Raises nm e]\<rparr>)"
  by (simp add: bnd_def lib_def call_def)

lemma bnd_call:
  "bnd (call nm act) f w =
     (case act w of
        (Inl e, v) \<Rightarrow> (Inl e, v\<lparr>calls := calls v @ [Raises nm e]\<rparr>)
      | (Inr x, v) \<Rightarrow> f x (v\<lparr>calls := calls v @ [Returns nm]\<rparr>))"
  by (simp add: bnd_def call_def split: prod.splits sum.splits)

lemma call_apply:
  "call nm act w =
     (case act w of
        (Inl e, v) \<Rightarrow> (Inl e, v\<lparr>calls := calls v @ [Raises nm e]\<rparr>)
      | (Inr x, v) \<Rightarrow> (Inr x, v\<lparr>calls := calls v @ [Returns nm]\<rparr>))"
  by (simp add: call_def)

lemma ret_apply: "ret x w = (Inr x, w)"
  by (simp add: ret_def)

lemma bnd_assoc: "bnd (bnd m f) g = bnd m (\<lambda>x. bnd (f x) g)"
  by (auto simp: bnd_def fun_eq_iff split: prod.splits sum.splits)

lemma bnd_assign_globals:
  "bnd (assign_globals dp mp ap sp) f w =
     f () (w\<lparr>datapath := Some dp, metricspath := Some mp, artifactspath := Some ap,
              submitspath := Some sp\<rparr>)"
  by (simp add: bnd_def assign_globals_def)

lemmas run_simps = bnd_lib_Inr bnd_lib_Inl bnd_call bnd_assoc bnd_assign_globals ret_apply
  call_apply global_join_def os_path_join_def
  path_join_def dd_read_parquet_def dd_read_csv_def to_parquet_def to_csv_def open_wb_def
  open_rb_def pickle_dump_def pickle_load_def os_path_exists_def os_mkdir_def
  register_def Let_def

lemmas pandas_defs = loc_columns_from_def loc_column_def fillna_def scale_def minus_cell_def
  minus_series_def set_column_def gt_zero_def by_mask_def loc_rows_def py_slice_to_def
  from_breaks_def pd_Series_def loc_set_sample_def columns_def or_zero_def
  nargsort_descending_def take_rows_def sort_values_descending_def

lemmas concrete_defs = library0_def config0_def world0_def world1_def world2_def frame0_def
  random_state_def head_rows_def tail_rows_def head_values_def tail_values_def library1_def

lemma bnd_call_Inr:
  "act w = (Inr x, v) \<Longrightarrow> bnd (call nm act) f w = f x (v\<lparr>calls := calls v @ [Returns nm]\<rparr>)"
  by (simp add: bnd_def call_def)

lemma call_Inr: "act w = (Inr x, v) \<Longrightarrow> call nm act w = (Inr x, v\<lparr>calls := calls v @ [Returns nm]\<rparr>)"
  by (simp add: call_def)

lemma global_join_Some: "g w = Some a \<Longrightarrow> global_join g b w = (Inr (path_join a b), w)"
  by (simp add: global_join_def os_path_join_def)

lemma dd_read_parquet_file: "fs w p = Some (ParquetFile f) \<Longrightarrow> dd_read_parquet p w = (Inr f, w)"
  by (simp add: dd_read_parquet_def)

lemma open_rb_file: "fs w p = Some c \<Longrightarrow> open_rb p w = (Inr p, w)"
  by (simp add: open_rb_def)

lemma pickle_load_file: "fs w p = Some (PickleFile obj) \<Longrightarrow> pickle_load p w = (Inr obj, w)"
  by (simp add: pickle_load_def)

subsection \<open>Columns and masks\<close>

lemma map_of_replace_column:
  "name \<in> fst ` set cs \<Longrightarrow>
   map_of (map (\<lambda>c. if fst c = name then (name, vs) else c) cs) name = Some vs"
  by (induction cs) auto

lemma set_column_Inr:
  assumes "set_column f name vs = Inr g"
  shows "map_of (cols g) name = Some vs" and "index g = index f"
    and "length vs = length (index f)"
proof -
  from assms have len: "length vs = length (index f)"
    by (auto simp: set_column_def split: if_splits)
  then show "length vs = length (index f)" .
  show "index g = index f"
    using assms by (auto simp: set_column_def split: if_splits)
  show "map_of (cols g) name = Some vs"
  proof (cases "name \<in> set (columns f)")
    case True
    then have "name \<in> fst ` set (cols f)" by (simp add: columns_def)
    moreover from assms len True
    have "g = f\<lparr>cols := map (\<lambda>c. if fst c = name then (name, vs) else c) (cols f)\<rparr>"
      by (simp add: set_column_def)
    ultimately show ?thesis
      by (simp add: map_of_replace_column)
  next
    case False
    then have "map_of (cols f) name = None"
      by (simp add: columns_def map_of_eq_None_iff)
    moreover from assms len False have "g = f\<lparr>cols := cols f @ [(name, vs)]\<rparr>"
      by (simp add: set_column_def)
    ultimately show ?thesis
      by (simp add: map_add_def)
  qed
qed

lemma by_mask_map:
  "length xs = length ys \<Longrightarrow>
   by_mask (map P ys) xs = map fst (filter (\<lambda>r. P (snd r)) (zip xs ys))"
proof (induction xs ys rule: list_induct2)
  case Nil
  then show ?case by (simp add: by_mask_def)
next
  case (Cons x xs y ys)
  then show ?case by (simp add: by_mask_def)
qed

lemma by_mask_self: "by_mask (map P ys) ys = filter P ys"
  by (induction ys) (simp_all add: by_mask_def)

lemma length_by_mask:
  "length xs = length ys \<Longrightarrow> length (by_mask (map P ys) xs) = length (filter P ys)"
proof (induction xs ys rule: list_induct2)
  case Nil
  then show ?case by (simp add: by_mask_def)
next
  case (Cons x xs y ys)
  then show ?case by (simp add: by_mask_def)
qed

lemma map_of_loc_rows:
  "map_of (cols (loc_rows keep f)) name = map_option (by_mask keep) (map_of (cols f) name)"
proof -
  have "map_of (map (\<lambda>c. (fst c, by_mask keep (snd c))) cs) name
          = map_option (by_mask keep) (map_of cs name)" for cs :: "(string \<times> cell list) list"
    by (induction cs) auto
  then show ?thesis by (simp add: loc_rows_def)
qed

lemma py_slice_to_nonneg: "0 \<le> n \<Longrightarrow> py_slice_to n xs = take (nat n) xs"
  by (simp add: py_slice_to_def)

lemma filter_snd_zip:
  "length xs = length ys \<Longrightarrow> filter P ys = map snd (filter (\<lambda>r. P (snd r)) (zip xs ys))"
proof (induction xs ys rule: list_induct2)
  case Nil
  then show ?case by simp
next
  case (Cons x xs y ys)
  then show ?case by simp
qed

subsection \<open>Rounding to a double\<close>

lemma pow2_powi: "pow2 k = 2 powi k"
  by (simp add: pow2_def power_int_def field_simps)

lemma pow2_pos: "0 < pow2 k"
  by (simp add: pow2_def)

lemma pow2_mono: "a \<le> b \<Longrightarrow> pow2 a \<le> pow2 b"
  by (simp add: pow2_powi power_int_increasing)

lemma pow2_add: "pow2 (a + b) = pow2 a * pow2 b"
  by (simp add: pow2_powi power_int_add)

lemma pow2_nat: "0 \<le> a \<Longrightarrow> pow2 a = 2 ^ nat a"
  by (simp add: pow2_def)

lemma bitlen_pow2_bounds:
  assumes "0 < p"
  shows "pow2 (bitlen p - 1) \<le> of_int p" and "of_int p < pow2 (bitlen p)"
proof -
  from bitlen_bounds [OF assms] have "(of_int p :: rat) < of_int (2 ^ nat (bitlen p))"
    by (simp only: of_int_less_iff)
  then show "of_int p < pow2 (bitlen p)"
    by (simp add: pow2_nat bitlen_nonneg)
  from bitlen_bounds [OF assms] have "(of_int (2 ^ nat (bitlen p - 1)) :: rat) \<le> of_int p"
    by (simp only: of_int_le_iff)
  moreover have "1 \<le> bitlen p"
    using assms bitlen_eq_zero_iff [of p] bitlen_nonneg [of p] by linarith
  ultimately show "pow2 (bitlen p - 1) \<le> of_int p"
    by (simp add: pow2_nat)
qed

text \<open>\<open>floor_log2 x\<close> is the exponent of \<open>x\<close>: \<open>2 ^ e \<le> x < 2 ^ (e + 1)\<close>.\<close>

lemma floor_log2_bounds:
  assumes "0 < x"
  shows "pow2 (floor_log2 x) \<le> x \<and> x < pow2 (floor_log2 x + 1)"
proof -
  obtain p q where pq: "quotient_of x = (p, q)" by (cases "quotient_of x")
  then have q: "0 < q" and x: "x = of_int p / of_int q"
    by (simp_all add: quotient_of_denom_pos quotient_of_div)
  with assms have p: "0 < p" by (simp add: zero_less_divide_iff)
  let ?d = "bitlen p - bitlen q"
  note pb = bitlen_pow2_bounds [OF p] and qb = bitlen_pow2_bounds [OF q]
  have lo: "pow2 (?d - 1) \<le> x"
  proof -
    have "pow2 (?d - 1) * of_int q \<le> pow2 (?d - 1) * pow2 (bitlen q)"
      using qb(2) pow2_pos [of "?d - 1"] by (simp add: less_imp_le)
    also have "\<dots> = pow2 (bitlen p - 1)"
      by (simp add: pow2_add [symmetric])
    also have "\<dots> \<le> of_int p" by (rule pb(1))
    finally show ?thesis using q by (simp add: x pos_le_divide_eq)
  qed
  have hi: "x < pow2 (?d + 1)"
  proof -
    have "of_int p < pow2 (bitlen p)" by (rule pb(2))
    also have "\<dots> = pow2 (?d + 1) * pow2 (bitlen q - 1)"
      by (simp add: pow2_add [symmetric])
    also have "\<dots> \<le> pow2 (?d + 1) * of_int q"
      using qb(1) pow2_pos [of "?d + 1"] by simp
    finally show ?thesis using q by (simp add: x pos_divide_less_eq)
  qed
  show ?thesis
  proof (cases "x < pow2 ?d")
    case True
    with lo show ?thesis by (simp add: floor_log2_def pq)
  next
    case False
    with hi show ?thesis by (simp add: floor_log2_def pq)
  qed
qed

lemma floor_log2_unique:
  assumes "pow2 e \<le> x" and "x < pow2 (e + 1)"
  shows "floor_log2 x = e"
proof -
  from assms(1) pow2_pos [of e] have "0 < x" by simp
  from floor_log2_bounds [OF this]
  have b: "pow2 (floor_log2 x) \<le> x" "x < pow2 (floor_log2 x + 1)" by simp_all
  have "\<not> floor_log2 x + 1 \<le> e"
  proof
    assume "floor_log2 x + 1 \<le> e"
    then have "pow2 (floor_log2 x + 1) \<le> pow2 e" by (rule pow2_mono)
    with b(2) assms(1) show False by simp
  qed
  moreover have "\<not> e + 1 \<le> floor_log2 x"
  proof
    assume "e + 1 \<le> floor_log2 x"
    then have "pow2 (e + 1) \<le> pow2 (floor_log2 x)" by (rule pow2_mono)
    with b(1) assms(2) show False by simp
  qed
  ultimately show ?thesis by simp
qed

lemma round_half_even_unique:
  assumes "of_int f \<le> x" and "x < of_int f + 1"
  shows "round_half_even x =
           (if x - of_int f < 1 / 2 then f else if 1 / 2 < x - of_int f then f + 1
            else if even f then f else f + 1)"
proof -
  from assms have "\<lfloor>x\<rfloor> = f" by (simp add: floor_unique)
  then show ?thesis by (simp add: round_half_even_def)
qed

text \<open>
  The rounded value is at most half a unit in the last place away, and on a tie the
  significand is even.
\<close>

lemma round_half_even_near:
  "\<bar>of_int (round_half_even x) - x\<bar> \<le> 1 / 2 \<and>
   (\<bar>of_int (round_half_even x) - x\<bar> = 1 / 2 \<longrightarrow> even (round_half_even x))"
proof -
  define f where "f = \<lfloor>x\<rfloor>"
  define r where "r = x - of_int f"
  have r: "0 \<le> r" "r < 1" unfolding r_def f_def by linarith+
  have x: "x = of_int f + r" by (simp add: r_def)
  have m: "round_half_even x =
      (if r < 1 / 2 then f else if 1 / 2 < r then f + 1 else if even f then f else f + 1)"
    by (simp only: round_half_even_def Let_def f_def r_def)
  consider "r < 1 / 2" | "1 / 2 < r" | "r = 1 / 2" by linarith
  then show ?thesis
  proof cases
    case 1
    with r show ?thesis unfolding m by (simp add: x abs_if)
  next
    case 2
    with r show ?thesis unfolding m by (simp add: x abs_if)
  next
    case 3
    then show ?thesis unfolding m by (simp add: x abs_if)
  qed
qed

lemma nearest_double_near:
  assumes "nearest_double x = Finite y"
  shows "\<exists>m. y = of_int m * pow2 (max (floor_log2 x - 52) (- 1074)) \<and>
             \<bar>y - x\<bar> \<le> pow2 (max (floor_log2 x - 52) (- 1074)) / 2"
proof -
  define q where "q = pow2 (max (floor_log2 x - 52) (- 1074))"
  define m where "m = round_half_even (x / q)"
  have q: "0 < q" by (simp add: q_def pow2_pos)
  from assms have y: "y = of_int m * q"
    by (simp add: nearest_double_def Let_def q_def m_def split: if_splits)
  have "\<bar>of_int m - x / q\<bar> \<le> 1 / 2"
    using round_half_even_near [of "x / q"] by (simp add: m_def)
  then have "\<bar>of_int m - x / q\<bar> * q \<le> 1 / 2 * q"
    using q by (intro mult_right_mono) simp_all
  moreover have "\<bar>of_int m - x / q\<bar> * q = \<bar>y - x\<bar>"
    using q by (simp add: y abs_mult [symmetric, of _ q, simplified] left_diff_distrib abs_mult_pos)
  ultimately have "\<bar>y - x\<bar> \<le> q / 2" by simp
  with y show ?thesis unfolding q_def by blast
qed

text \<open>How \<open>to_float\<close> is evaluated at a given number, from its exponent and the floor of its significand.\<close>

lemma nearest_double_eval:
  assumes "pow2 e \<le> x" and "x < pow2 (e + 1)"
    and "of_int f \<le> x / pow2 (max (e - 52) (- 1074))"
    and "x / pow2 (max (e - 52) (- 1074)) < of_int f + 1"
  shows "nearest_double x =
     (let q = pow2 (max (e - 52) (- 1074)); r = x / q - of_int f;
          y = of_int (if r < 1 / 2 then f else if 1 / 2 < r then f + 1
                      else if even f then f else f + 1) * q
      in if pow2 1024 \<le> y then PlusInf else Finite y)"
  using assms
  by (simp add: nearest_double_def floor_log2_unique [OF assms(1,2)]
      round_half_even_unique [OF assms(3,4)] Let_def)

lemma to_float_examples:
  "to_float 3 = Finite 3"
  "to_float (1 / 2) = Finite (1 / 2)"
  "to_float (3 / 2) = Finite (3 / 2)"
  "to_float (- (1 / 2)) = Finite (- (1 / 2))"
  "to_float (- (3 / 2)) = Finite (- (3 / 2))"
  "to_float (3333333333333333 / 10000000000000000) = Finite (6004799503160661 / 18014398509481984)"
  "to_float (18014398509481983 / 18014398509481984) = Finite 1"
  by (simp_all add: to_float_def pow2_def
      nearest_double_eval [where e = 1 and f = 6755399441055744]
      nearest_double_eval [where e = "- 1" and f = 4503599627370496]
      nearest_double_eval [where e = 0 and f = 6755399441055744]
      nearest_double_eval [where e = "- 2" and f = 6004799503160660]
      nearest_double_eval [where e = "- 1" and f = 9007199254740991])

text \<open>
  Two ordinary cutoffs: \<open>int(100 * 0.29)\<close> is 28, the product being the double just
  below 29, and \<open>int(10 * 0.3)\<close> is 3, the product being rounded up to 3.
\<close>

lemma int_of_float_product_examples:
  "to_float (29 / 100) = Finite (5224175567749775 / 18014398509481984)"
  "py_mul 100 (yaml_load (YamlFloat (29 / 100))) =
     Inr (PyFloat (Finite (8162774324609023 / 281474976710656)))"
  "py_int (PyFloat (Finite (8162774324609023 / 281474976710656))) = Inr 28"
  "to_float (3 / 10) = Finite (5404319552844595 / 18014398509481984)"
  "py_mul 10 (yaml_load (YamlFloat (3 / 10))) = Inr (PyFloat (Finite 3))"
  "py_int (PyFloat (Finite 3)) = Inr 3"
  by (simp_all add: to_float_def pow2_def yaml_load_def trunc_zero_def
      floor_unique [where z = 28]
      nearest_double_eval [where e = 6 and f = 7036874417766400]
      nearest_double_eval [where e = "- 2" and f = 5224175567749775]
      nearest_double_eval [where e = 4 and f = 8162774324609023]
      nearest_double_eval [where e = 3 and f = 5629499534213120]
      nearest_double_eval [where e = "- 2" and f = 5404319552844595]
      nearest_double_eval [where e = 1 and f = 6755399441055743])

lemma round_half_even_nonneg: "0 \<le> x \<Longrightarrow> 0 \<le> round_half_even x"
  unfolding round_half_even_def Let_def by (auto simp: zero_le_floor)

lemma nearest_double_nonneg:
  assumes "0 \<le> x"
  shows "nearest_double x = Finite y \<Longrightarrow> 0 \<le> y" and "nearest_double x \<noteq> MinusInf"
    and "nearest_double x \<noteq> NaN"
  using assms pow2_pos round_half_even_nonneg [of "x / pow2 (max (floor_log2 x - 52) (- 1074))"]
  unfolding nearest_double_def Let_def
  by (auto simp: less_imp_le split: if_splits)

lemma to_float_nonneg:
  assumes "0 \<le> x"
  shows "to_float x = Finite y \<Longrightarrow> 0 \<le> y" and "to_float x \<noteq> MinusInf" and "to_float x \<noteq> NaN"
  using assms nearest_double_nonneg [of x]
  unfolding to_float_def by (auto split: if_splits)

lemma py_mul_nonneg:
  assumes "0 \<le> yaml_value c" and "py_mul N (yaml_load c) = Inr product"
    and "number_value product = Some y"
  shows "0 \<le> y"
proof (cases c)
  case (YamlInt k)
  with assms show ?thesis
    by (auto simp: yaml_value_def yaml_load_def)
next
  case (YamlFloat x)
  with assms(1) have x: "0 \<le> x" by (simp add: yaml_value_def)
  from assms(2) YamlFloat obtain a where a: "to_float (of_nat N) = Finite a"
    and product: "product = PyFloat (fmul (Finite a) (to_float x))"
    by (auto simp: yaml_load_def split: pyfloat.splits)
  have a0: "0 \<le> a" using to_float_nonneg(1) [OF _ a] by simp
  show ?thesis
  proof (cases "to_float x")
    case (Finite b)
    with x have "0 \<le> b" by (simp add: to_float_nonneg(1))
    with a0 have "0 \<le> a * b" by simp
    with assms(3) product Finite show ?thesis
      by (cases "to_float (a * b)") (auto dest: to_float_nonneg(1) [rotated])
  next
    case PlusInf
    with assms(3) product show ?thesis by (auto split: if_splits)
  next
    case MinusInf
    with x show ?thesis by (simp add: to_float_nonneg(2))
  next
    case NaN
    with x show ?thesis by (simp add: to_float_nonneg(3))
  qed
qed

lemma py_int_floor:
  assumes "number_value product = Some y" and "0 \<le> y"
  shows "py_int product = Inr \<lfloor>y\<rfloor>"
  using assms by (cases product rule: number_value.cases) (auto simp: trunc_zero_def)

lemma floor_three_halves:
  "\<lfloor>3 / 2 :: rat\<rfloor> = 1" "\<lceil>- (3 / 2) :: rat\<rceil> = - 1" "\<lfloor>- (3 / 2) :: rat\<rfloor> = - 2"
  "\<lfloor>9999999999999999 / 10000000000000000 :: rat\<rfloor> = 0"
  by (simp_all add: floor_unique ceiling_unique)

subsection \<open>Sorting the rows\<close>

lemma nargsort_descending_no_nan:
  assumes "None \<notin> set key"
  shows "nargsort_descending ties key =
           sort_key (\<lambda>j. - or_zero (key ! j)) (sort_key ties [0..<length key])"
proof -
  have "key ! j \<noteq> None" if "j < length key" for j
    using assms that nth_mem [of j key] by metis
  then have "filter (\<lambda>j. key ! j \<noteq> None) [0..<length key] = [0..<length key]"
    and "filter (\<lambda>j. key ! j = None) [0..<length key] = []"
    by (simp_all add: filter_empty_conv)
  then show ?thesis by (simp add: nargsort_descending_def)
qed

text \<open>
  The rows of a frame without NaN in the sorted column, taken in the order of
  \<open>nargsort_descending\<close>, are the same rows in descending order.
\<close>

lemma rows_sorted_descending:
  assumes "None \<notin> snd ` set rows"
  shows "mset (map (\<lambda>j. rows ! j) (nargsort_descending ties (map snd rows))) = mset rows"
    and "descending (\<lambda>r. or_zero (snd r)) (map (\<lambda>j. rows ! j) (nargsort_descending ties (map snd rows)))"
proof -
  let ?key = "map snd rows"
  let ?perm = "nargsort_descending ties ?key"
  from assms have perm: "?perm = sort_key (\<lambda>j. - or_zero (?key ! j)) (sort_key ties [0..<length rows])"
    by (simp add: nargsort_descending_no_nan)
  then have m: "mset ?perm = mset [0..<length rows]" by simp
  then have "mset (map (\<lambda>j. rows ! j) ?perm) = mset (map (\<lambda>j. rows ! j) [0..<length rows])"
    by (simp only: mset_map)
  then show "mset (map (\<lambda>j. rows ! j) ?perm) = mset rows"
    by (simp only: map_nth)
  from m have "set ?perm = set [0..<length rows]" by (rule mset_eq_setD)
  then have bound: "j < length rows" if "j \<in> set ?perm" for j using that by simp
  have "sorted (map (\<lambda>j. - or_zero (?key ! j)) ?perm)"
    unfolding perm by (rule sorted_sort_key)
  then have "sorted_wrt (\<lambda>i j. - or_zero (?key ! i) \<le> - or_zero (?key ! j)) ?perm"
    by (simp only: sorted_map)
  then have "sorted_wrt (\<lambda>i j. or_zero (snd (rows ! j)) \<le> or_zero (snd (rows ! i))) ?perm"
    by (rule sorted_wrt_mono_rel [rotated]) (simp add: bound)
  then show "descending (\<lambda>r. or_zero (snd r)) (map (\<lambda>j. rows ! j) ?perm)"
    by (simp add: descending_def sorted_wrt_map)
qed

subsection \<open>\<open>inference\<close>: the customers written to the submit file\<close>

text \<open>
  Claim C1, as the code has it. With the globals set, the features file and the pickled
  pipeline in place and \<open>predict\<close> giving one uplift per row, the rows that
  \<open>inference\<close> keeps are those whose uplift is strictly greater than 0 (NaN is not), and
  it sorts them in descending order of uplift. With \<open>N\<close> the number of kept rows, a cutoff
  that is not negative and \<open>y\<close> the value of the Python product \<open>N * cutoff\<close> (for a
  float cutoff the float64 product, which is rounded; it must be finite), \<open>inference\<close>
  completes and the submit file holds the index labels of the first \<open>\<lfloor>y\<rfloor>\<close> sorted
  rows (of all \<open>N\<close> when \<open>\<lfloor>y\<rfloor>\<close> exceeds \<open>N\<close>).
\<close>

theorem inference_top_customers:
  assumes globals: "datapath w = Some dp" "artifactspath w = Some ap" "submitspath w = Some sp"
    and features: "fs w (path_join dp (name @ ''_features.parquet'')) = Some (ParquetFile F)"
    and pickle: "fs w (path_join ap (name @ ''_pipeline.pkl'')) = Some (PickleFile pipeline)"
    and predicted: "predict L pipeline (loc_columns_from 3 F) = Inr uplift"
    and per_row: "length uplift = length (index F)"
    and cutoff: "0 \<le> yaml_value (cutoff config)"
    and product: "py_mul (length (filter gt_zero uplift)) (yaml_load (cutoff config)) = Inr product"
    and finite: "number_value product = Some y"
  shows "\<exists>ranked.
           mset ranked = mset (filter (\<lambda>r. gt_zero (snd r)) (zip (index F) uplift)) \<and>
           descending (\<lambda>r. or_zero (snd r)) ranked \<and>
           fst (inference L name config w) = Inr () \<and>
           fs (snd (inference L name config w)) =
             (fs w)(path_join sp (name @ ''_submit.csv'') \<mapsto>
                CsvFile (IndexCsv (take (nat \<lfloor>y\<rfloor>) (map fst ranked))))"
proof -
  let ?X = "loc_columns_from 3 F"
  let ?rows = "filter (\<lambda>r. gt_zero (snd r)) (zip (index F) uplift)"
  let ?key = "filter gt_zero uplift"
  let ?perm = "nargsort_descending (argsort_ties L ?key) ?key"
  let ?ranked = "map (\<lambda>j. ?rows ! j) ?perm"
  have ix: "index ?X = index F" by (simp add: loc_columns_from_def)
  obtain scored where scored: "set_column ?X ''uplift'' uplift = Inr scored"
    using per_row ix by (cases "''uplift'' \<in> set (columns ?X)") (auto simp: set_column_def)
  let ?kept = "loc_rows (map gt_zero uplift) scored"
  note sc = set_column_Inr [OF scored]
  have col: "loc_column scored ''uplift'' = Inr \<lparr>s_index = index scored, s_values = uplift\<rparr>"
    by (simp add: loc_column_def sc(1))
  have kept_index: "index ?kept = map fst ?rows"
    using per_row by (simp add: loc_rows_def sc(2) ix by_mask_map)
  have key: "?key = map snd ?rows"
    by (rule filter_snd_zip) (simp add: per_row)
  have kept_uplift: "map_of (cols ?kept) ''uplift'' = Some ?key"
    by (simp add: map_of_loc_rows sc(1) by_mask_self)
  have no_nan: "None \<notin> snd ` set ?rows"
    by (auto simp: gt_zero_def)
  have perm_set: "set ?perm = {0..<length ?rows}"
  proof -
    have "None \<notin> set ?key" by (auto simp: gt_zero_def)
    then have "mset ?perm = mset [0..<length ?key]"
      by (simp add: nargsort_descending_no_nan)
    then have "set ?perm = set [0..<length ?key]" by (rule mset_eq_setD)
    then show ?thesis by (simp add: key)
  qed
  have sorted_frame:
    "sort_values_descending (argsort_ties L) ?kept ''uplift'' = Inr (take_rows ?perm ?kept)"
    by (simp add: sort_values_descending_def kept_uplift)
  have labels: "index (take_rows ?perm ?kept) = map fst ?ranked"
    using perm_set by (simp add: take_rows_def kept_index)
  have N: "length ?perm = length ?key"
  proof -
    have "None \<notin> set ?key" by (auto simp: gt_zero_def)
    then have "mset ?perm = mset [0..<length ?key]"
      by (simp add: nargsort_descending_no_nan)
    then have "length ?perm = length [0..<length ?key]" by (rule mset_eq_length)
    then show ?thesis by simp
  qed
  have nonneg: "0 \<le> y" using cutoff product finite by (rule py_mul_nonneg)
  then have n: "py_int product = Inr \<lfloor>y\<rfloor>" using finite by (simp add: py_int_floor)
  have run: "inference L name config w =
      (Inr (), w\<lparr>calls := calls w @ map Returns [''os.path.join'', ''dd.read_parquet'',
                    ''os.path.join'', ''open'', ''pickle.load'', ''Pipeline.predict'',
                    ''DataFrame.__setitem__'', ''DataFrame.__getitem__'', ''DataFrame.sort_values'',
                    ''int.__mul__'', ''int'', ''os.path.join'', ''Series.to_csv''],
                  fs := (fs w)(path_join sp (name @ ''_submit.csv'') \<mapsto>
                     CsvFile (IndexCsv (take (nat \<lfloor>y\<rfloor>) (map fst ?ranked))))\<rparr>)"
    unfolding inference_def
    by (simp add: bnd_call_Inr bnd_lib_Inr call_Inr global_join_Some dd_read_parquet_file
        open_rb_file pickle_load_file to_csv_def globals features pickle predicted scored col
        sorted_frame N product n py_slice_to_nonneg nonneg labels)
  have "mset ?ranked = mset ?rows" and "descending (\<lambda>r. or_zero (snd r)) ?ranked"
    unfolding key by (rule rows_sorted_descending [OF no_nan])+
  then show ?thesis
    by (intro exI [of _ ?ranked]) (simp add: run)
qed

theorem inference_top_customers_witness:
  "\<exists>ranked.
     mset ranked = mset [(13, Some 1), (14, Some 2), (15, Some 3)] \<and>
     descending (\<lambda>r. or_zero (snd r)) ranked \<and>
     fst (inference library0 ''run'' config0 world2) = Inr () \<and>
     fs (snd (inference library0 ''run'' config0 world2)) =
       (fs world2)(''wd/submits/run_submit.csv'' \<mapsto>
          CsvFile (IndexCsv (take 1 (map fst ranked))))"
  using inference_top_customers [where w = world2 and L = library0 and name = "''run''"
      and config = config0 and dp = "''wd/data''" and ap = "''wd/artifacts''"
      and sp = "''wd/submits''" and F = frame0 and pipeline = 7
      and uplift = "[Some (- 1), Some 0, Some 1, Some 2, Some 3]"
      and product = "PyFloat (Finite (3 / 2))" and y = "3 / 2"]
  by (simp add: loc_columns_from_def columns_def gt_zero_def yaml_value_def yaml_load_def
      concrete_defs path_join_def floor_three_halves to_float_examples)

text \<open>
  Claim C1 as stated fails. For a negative cutoff, \<open>int\<close> truncates towards zero and
  \<open>index[:n]\<close> with a negative \<open>n\<close> drops the last \<open>-n\<close> labels: with three kept rows
  and the cutoff \<open>-0.5\<close> the floor of the product is \<open>-2\<close>, yet two customers are
  written. And the product is a float64 product, which is rounded before \<open>int\<close> is taken:
  with three kept rows and the cutoff \<open>0.3333333333333333\<close> the floor of the product is
  0, yet one customer is written, the float product being 1.0.
\<close>

theorem inference_cutoff_counterexamples:
  "fs (snd (inference library0 ''run'' (config0\<lparr>cutoff := YamlFloat (- (1 / 2))\<rparr>) world2))
      ''wd/submits/run_submit.csv'' = Some (CsvFile (IndexCsv [15, 14])) \<and>
   \<lfloor>of_nat (length (filter gt_zero [Some (- 1), Some 0, Some 1, Some 2, Some 3])) *
      yaml_value (cutoff (config0\<lparr>cutoff := YamlFloat (- (1 / 2))\<rparr>))\<rfloor> = - 2 \<and>
   fs (snd (inference library0 ''run''
              (config0\<lparr>cutoff := YamlFloat (3333333333333333 / 10000000000000000)\<rparr>) world2))
      ''wd/submits/run_submit.csv'' = Some (CsvFile (IndexCsv [15])) \<and>
   \<lfloor>of_nat (length (filter gt_zero [Some (- 1), Some 0, Some 1, Some 2, Some 3])) *
      yaml_value (cutoff (config0\<lparr>cutoff := YamlFloat (3333333333333333 / 10000000000000000)\<rparr>))\<rfloor> = 0"
  by (simp add: inference_def run_simps pandas_defs concrete_defs floor_three_halves
      yaml_load_def yaml_value_def trunc_zero_def to_float_examples)

subsection \<open>The tasks on the concrete library\<close>

lemma init_run0: "init library0 ''wd'' world0 = (Inr (), world1)"
  by (simp add: init_def run_simps concrete_defs)

lemma featurize_run0:
  "featurize library0 ''run'' config0 world1 =
     (Inr (), world1\<lparr>fs := (fs world1)(''wd/data/run_features.parquet'' \<mapsto> ParquetFile frame0),
                     calls := calls world1 @ map Returns [''compute_features'', ''os.path.join'',
                                                          ''DataFrame.to_parquet'']\<rparr>)"
  by (simp add: featurize_def run_simps concrete_defs)

lemma train_run0: "train library0 ''run'' config0 world2 = (Inr (), world3)"
  by (simp add: train_def run_simps pandas_defs concrete_defs world3_def trained_def eval_nat_numeral)

lemma train_run1: "train library1 ''run'' config0 world2 = (Inr (), world4)"
  by (simp add: train_def run_simps pandas_defs concrete_defs world4_def trained_def eval_nat_numeral)

lemma inference_run0:
  "inference library0 ''run'' config0 world2 =
     (Inr (), world2\<lparr>fs := (fs world2)(''wd/submits/run_submit.csv'' \<mapsto> CsvFile (IndexCsv [15])),
                     calls := calls world2 @ map Returns [''os.path.join'', ''dd.read_parquet'',
                       ''os.path.join'', ''open'', ''pickle.load'', ''Pipeline.predict'',
                       ''DataFrame.__setitem__'', ''DataFrame.__getitem__'', ''DataFrame.sort_values'',
                       ''int.__mul__'', ''int'', ''os.path.join'', ''Series.to_csv'']\<rparr>)"
  by (simp add: inference_def run_simps pandas_defs concrete_defs floor_three_halves
      yaml_load_def trunc_zero_def to_float_examples)

subsection \<open>Runs that complete\<close>

lemma bnd_Inr_iff:
  "bnd m f w = (Inr y, w'') \<longleftrightarrow> (\<exists>x w'. m w = (Inr x, w') \<and> f x w' = (Inr y, w''))"
  by (auto simp: bnd_def split: prod.splits sum.splits)

lemma ret_Inr_iff: "ret x w = (Inr y, w') \<longleftrightarrow> y = x \<and> w' = w"
  by (auto simp: ret_def)

lemma call_Inr_iff:
  "call nm act w = (Inr x, w') \<longleftrightarrow>
     (\<exists>v. act w = (Inr x, v) \<and> w' = v\<lparr>calls := calls v @ [Returns nm]\<rparr>)"
  by (auto simp: call_def split: prod.splits sum.splits)

lemma lib_Inr_iff:
  "lib nm r w = (Inr x, w') \<longleftrightarrow> r = Inr x \<and> w' = w\<lparr>calls := calls w @ [Returns nm]\<rparr>"
  by (auto simp: lib_def call_def split: sum.splits)

lemma global_join_Inr_iff:
  "global_join g b w = (Inr p, v) \<longleftrightarrow> (\<exists>a. g w = Some a \<and> p = path_join a b) \<and> v = w"
  by (auto simp: global_join_def os_path_join_def split: option.splits)

lemma dd_read_parquet_Inr_iff:
  "dd_read_parquet p w = (Inr f, v) \<longleftrightarrow> fs w p = Some (ParquetFile f) \<and> v = w"
  by (auto simp: dd_read_parquet_def split: option.splits content.splits)

lemma dd_read_csv_Inr_iff:
  "dd_read_csv p w = (Inr f, v) \<longleftrightarrow> fs w p = Some (CsvFile (FrameCsv f)) \<and> v = w"
  by (auto simp: dd_read_csv_def split: option.splits content.splits csv_object.splits)

lemma open_rb_Inr_iff: "open_rb p w = (Inr f, v) \<longleftrightarrow> fs w p \<noteq> None \<and> f = p \<and> v = w"
  by (auto simp: open_rb_def split: option.splits)

lemma open_wb_Inr_iff:
  "open_wb p w = (Inr f, v) \<longleftrightarrow> f = p \<and> v = w\<lparr>fs := (fs w)(p \<mapsto> EmptyFile)\<rparr>"
  by (auto simp: open_wb_def)

lemma pickle_load_Inr_iff:
  "pickle_load f w = (Inr obj, v) \<longleftrightarrow> fs w f = Some (PickleFile obj) \<and> v = w"
  by (auto simp: pickle_load_def split: option.splits content.splits)

lemma pickle_dump_Inr_iff:
  "pickle_dump obj f w = (Inr u, v) \<longleftrightarrow> v = w\<lparr>fs := (fs w)(f \<mapsto> PickleFile obj)\<rparr>"
  by (auto simp: pickle_dump_def)

lemma to_csv_Inr_iff:
  "to_csv obj p w = (Inr u, v) \<longleftrightarrow> v = w\<lparr>fs := (fs w)(p \<mapsto> CsvFile obj)\<rparr>"
  by (auto simp: to_csv_def)

lemma to_parquet_Inr_iff:
  "to_parquet f p w = (Inr u, v) \<longleftrightarrow> v = w\<lparr>fs := (fs w)(p \<mapsto> ParquetFile f)\<rparr>"
  by (auto simp: to_parquet_def)

lemma os_path_exists_Inr_iff:
  "os_path_exists p w = (Inr b, v) \<longleftrightarrow> b = (fs w p \<noteq> None) \<and> v = w"
  by (auto simp: os_path_exists_def)

lemma os_mkdir_Inr_iff:
  "os_mkdir p w = (Inr u, v) \<longleftrightarrow> fs w p = None \<and> v = w\<lparr>fs := (fs w)(p \<mapsto> Directory)\<rparr>"
  by (auto simp: os_mkdir_def split: option.splits)

lemma assign_globals_Inr_iff:
  "assign_globals dp mp ap sp w = (Inr u, v) \<longleftrightarrow>
     v = w\<lparr>datapath := Some dp, metricspath := Some mp, artifactspath := Some ap,
           submitspath := Some sp\<rparr>"
  by (auto simp: assign_globals_def)

lemma register_Inr_iff:
  "register L nm t w = (Inr u, v) \<longleftrightarrow> v = w\<lparr>engine := registerTable L nm t (engine w)\<rparr>"
  by (auto simp: register_def)

lemma metrics_at_Inr_iff:
  "metrics_at L u wv yv ks w = (Inr ms, w') \<longleftrightarrow>
     list_all2 (\<lambda>k m. uplift_at_k L u wv yv k = Inr m) ks ms \<and>
     w' = w\<lparr>calls := calls w @ replicate (length ks) (Returns ''uplift_at_k'')\<rparr>"
proof (induction ks arbitrary: w ms)
  case Nil
  then show ?case by (auto simp: ret_Inr_iff)
next
  case (Cons k ks)
  show ?case
    by (cases ms)
      (auto simp: bnd_Inr_iff lib_Inr_iff ret_Inr_iff Cons.IH replicate_append_same
        simp flip: replicate_Suc)
qed

lemma loc_column_Inr_iff:
  "loc_column f name = Inr s \<longleftrightarrow>
     (\<exists>vs. map_of (cols f) name = Some vs \<and> s = \<lparr>s_index = index f, s_values = vs\<rparr>)"
  by (auto simp: loc_column_def split: option.splits)

lemmas run_Inr = bnd_Inr_iff ret_Inr_iff call_Inr_iff lib_Inr_iff global_join_Inr_iff
  dd_read_parquet_Inr_iff dd_read_csv_Inr_iff open_rb_Inr_iff open_wb_Inr_iff
  pickle_load_Inr_iff pickle_dump_Inr_iff to_csv_Inr_iff to_parquet_Inr_iff
  os_path_exists_Inr_iff os_mkdir_Inr_iff assign_globals_Inr_iff register_Inr_iff
  metrics_at_Inr_iff

subsection \<open>The targets of \<open>train\<close>\<close>

lemma map2_minus_cell3:
  "map2 minus_cell (map2 minus_cell (map f amt) (map g disc)) (map h flag) =
     map (\<lambda>(a, d, t). minus_cell (minus_cell (f a) (g d)) (h t)) (zip amt (zip disc flag))"
proof (induction amt arbitrary: disc flag)
  case Nil
  then show ?case by simp
next
  case (Cons a amt)
  show ?case
  proof (cases disc)
    case Nil
    then show ?thesis by simp
  next
    case disc: (Cons d disc')
    show ?thesis
    proof (cases flag)
      case Nil
      then show ?thesis by (simp add: disc)
    next
      case (Cons t flag')
      then show ?thesis
        using Cons.IH [of disc' flag'] by (simp add: disc)
    qed
  qed
qed

lemma target_cell:
  "minus_cell
     (minus_cell (map_option ((*) 28) (case a of None \<Rightarrow> Some 0 | Some x \<Rightarrow> Some x))
                 (case d of None \<Rightarrow> Some 0 | Some x \<Rightarrow> Some x))
     (map_option ((*) 1) (case t of None \<Rightarrow> Some 0 | Some x \<Rightarrow> Some x))
   = Some (28 * or_zero a - or_zero d - or_zero t)"
  by (simp add: minus_cell_def or_zero_def split: option.splits)

lemma target_series:
  "minus_series
     (minus_series (scale 28 (fillna 0 \<lparr>s_index = i, s_values = amt\<rparr>))
                   (fillna 0 \<lparr>s_index = i, s_values = disc\<rparr>))
     (scale 1 (fillna 0 \<lparr>s_index = i, s_values = flag\<rparr>))
   = \<lparr>s_index = i,
      s_values = map (\<lambda>(a, d, t). Some (28 * or_zero a - or_zero d - or_zero t))
                     (zip amt (zip disc flag))\<rparr>"
proof -
  let ?fill = "\<lambda>c :: cell. case c of None \<Rightarrow> Some 0 | Some x \<Rightarrow> Some x"
  have "map2 minus_cell
          (map2 minus_cell (map (\<lambda>c. map_option ((*) 28) (?fill c)) amt) (map ?fill disc))
          (map (\<lambda>c. map_option ((*) 1) (?fill c)) flag)
        = map (\<lambda>(a, d, t). Some (28 * or_zero a - or_zero d - or_zero t)) (zip amt (zip disc flag))"
    unfolding map2_minus_cell3 by (simp only: target_cell)
  then show ?thesis
    unfolding minus_series_def scale_def fillna_def
    by (simp only: series.select_convs series.update_convs map_map comp_def)
qed

lemma treatment_series:
  "fillna 0 \<lparr>s_index = i, s_values = flag\<rparr> = \<lparr>s_index = i, s_values = map (\<lambda>c. Some (or_zero c)) flag\<rparr>"
  by (simp add: fillna_def or_zero_def option.case_eq_if)

lemma target_series_filled:
  "minus_series
     (minus_series (scale 28 \<lparr>s_index = i, s_values = map (\<lambda>c. Some (or_zero c)) amt\<rparr>)
                   \<lparr>s_index = i, s_values = map (\<lambda>c. Some (or_zero c)) disc\<rparr>)
     (scale 1 \<lparr>s_index = i, s_values = map (\<lambda>c. Some (or_zero c)) flag\<rparr>)
   = \<lparr>s_index = i,
      s_values = map (\<lambda>(a, d, t). Some (28 * or_zero a - or_zero d - or_zero t))
                     (zip amt (zip disc flag))\<rparr>"
  using target_series [of i amt disc flag] by (simp only: treatment_series)




subsection \<open>\<open>_init\<close>\<close>

text \<open>
  Claim C6. A run of \<open>_init\<close> that completes has read \<open>campaigns.csv\<close> and
  \<open>customers.csv\<close> as CSV and \<open>receipts.parquet\<close> as Parquet, all three under the
  \<open>data\<close> subdirectory of the work directory, and has registered exactly these three tables
  on the engine, under the names \<open>campaigns\<close>, \<open>customers\<close> and \<open>receipts\<close>, in this
  order.
\<close>

theorem init_registers_three_tables:
  assumes "init L workpath w = (Inr (), w')"
  shows "\<exists>campaigns customers receipts.
           fs w' (path_join (path_join workpath ''data'') ''campaigns.csv'') =
             Some (CsvFile (FrameCsv campaigns)) \<and>
           fs w' (path_join (path_join workpath ''data'') ''customers.csv'') =
             Some (CsvFile (FrameCsv customers)) \<and>
           fs w' (path_join (path_join workpath ''data'') ''receipts.parquet'') =
             Some (ParquetFile receipts) \<and>
           engine w' =
             registerTable L ''receipts'' receipts
               (registerTable L ''customers'' customers
                  (registerTable L ''campaigns'' campaigns (engine w))) \<and>
           filter (\<lambda>ev. ev = Returns ''Engine.registerTable'') (drop (length (calls w)) (calls w')) =
             replicate 3 (Returns ''Engine.registerTable'')"
  using assms unfolding init_def Let_def
  by (clarsimp simp: run_Inr eval_nat_numeral split: if_splits)

theorem init_registers_three_tables_witness:
  "init library0 ''wd'' world0 = (Inr (), world1) \<and>
   (\<exists>campaigns customers receipts.
     fs world1 (path_join (path_join ''wd'' ''data'') ''campaigns.csv'') =
       Some (CsvFile (FrameCsv campaigns)) \<and>
     fs world1 (path_join (path_join ''wd'' ''data'') ''customers.csv'') =
       Some (CsvFile (FrameCsv customers)) \<and>
     fs world1 (path_join (path_join ''wd'' ''data'') ''receipts.parquet'') =
       Some (ParquetFile receipts) \<and>
     engine world1 =
       registerTable library0 ''receipts'' receipts
         (registerTable library0 ''customers'' customers
            (registerTable library0 ''campaigns'' campaigns (engine world0))) \<and>
     filter (\<lambda>ev. ev = Returns ''Engine.registerTable'') (drop (length (calls world0)) (calls world1)) =
       replicate 3 (Returns ''Engine.registerTable''))"
  by (intro conjI init_run0 init_registers_three_tables [OF init_run0])

subsection \<open>\<open>featurize\<close>\<close>

text \<open>
  Claim C5. Once \<open>_init\<close> has set \<open>_datapath\<close>, \<open>featurize\<close> is determined by
  \<open>compute_features\<close> applied to the config's \<open>calcers\<close> list and the engine: its
  exception is the task's exception, and its result is what is written, as it is, to
  \<open><name>_features.parquet\<close> in the data directory. Nothing else of the config or of the
  world enters the written features.
\<close>

theorem featurize_writes_computed_features:
  assumes "datapath w = Some dp"
  shows "featurize L name config w =
           (case compute_features L (calcers config) (engine w) of
              Inl e \<Rightarrow> (Inl e, w\<lparr>calls := calls w @ [Raises ''compute_features'' e]\<rparr>)
            | Inr features \<Rightarrow>
                (Inr (),
                 w\<lparr>fs := (fs w)(path_join dp (name @ ''_features.parquet'') \<mapsto> ParquetFile features),
                   calls := calls w @ map Returns [''compute_features'', ''os.path.join'',
                                                   ''DataFrame.to_parquet'']\<rparr>))"
  using assms
  by (simp add: featurize_def bnd_call call_apply global_join_def os_path_join_def to_parquet_def
      split: sum.splits)

theorem featurize_writes_computed_features_witness:
  "featurize library0 ''run'' config0 world1 =
     (Inr (), world1\<lparr>fs := (fs world1)(''wd/data/run_features.parquet'' \<mapsto> ParquetFile frame0),
                     calls := calls world1 @ map Returns [''compute_features'', ''os.path.join'',
                                                          ''DataFrame.to_parquet'']\<rparr>)"
  using featurize_writes_computed_features [of world1 "''wd/data''" library0 "''run''" config0]
  by (simp add: concrete_defs path_join_def)

subsection \<open>\<open>train\<close>\<close>

text \<open>
  Claim C2, as the code has it. Every run of \<open>train\<close> that completes makes its library
  calls in this order: the features are read and sampled, the targets are taken, the
  pipeline is assembled, the data is split, the pipeline is fitted and at once persisted
  with \<open>pickle.dump\<close>; only then is it scored (\<open>predict\<close>, the histogram, one
  \<open>uplift_at_k\<close> per cutoff, \<open>predict\<close> on all rows), and at the end the three CSV
  files are written.
\<close>

theorem train_steps_in_order:
  assumes "train L name config w = (Inr (), w')"
  shows "\<exists>cutoffs.
           np_arange L (evaluation_cutoff_step config) 1 (evaluation_cutoff_step config) = Inr cutoffs \<and>
           calls w' = calls w @ map Returns
             ([''os.path.join'', ''dd.read_parquet'', ''DataFrame.sample'', ''DataFrame.loc'',
               ''DataFrame.loc'', ''DataFrame.loc'', ''DataFrame.loc'', ''build_pipeline'',
               ''build_pipeline'', ''build_pipeline'', ''train_test_split'', ''Pipeline.fit'',
               ''os.path.join'', ''open'', ''pickle.dump'', ''Pipeline.predict'',
               ''numpy.histogram'', ''pandas.Series'', ''numpy.arange'']
              @ replicate (length cutoffs) ''uplift_at_k''
              @ [''pandas.Series'', ''DataFrame.loc.__setitem__'', ''DataFrame.loc.__setitem__'',
                 ''Pipeline.predict'', ''DataFrame.__setitem__'', ''os.path.join'',
                 ''Series.to_csv'', ''os.path.join'', ''Series.to_csv'', ''os.path.join'',
                 ''DataFrame.to_csv''])"
  using assms unfolding train_def
  by (clarsimp simp: run_Inr split: if_splits)

theorem train_steps_in_order_witness:
  "train library0 ''run'' config0 world2 = (Inr (), world3) \<and>
   (\<exists>cutoffs.
     np_arange library0 (evaluation_cutoff_step config0) 1 (evaluation_cutoff_step config0) = Inr cutoffs \<and>
     calls world3 = calls world2 @ map Returns
       ([''os.path.join'', ''dd.read_parquet'', ''DataFrame.sample'', ''DataFrame.loc'',
         ''DataFrame.loc'', ''DataFrame.loc'', ''DataFrame.loc'', ''build_pipeline'',
         ''build_pipeline'', ''build_pipeline'', ''train_test_split'', ''Pipeline.fit'',
         ''os.path.join'', ''open'', ''pickle.dump'', ''Pipeline.predict'',
         ''numpy.histogram'', ''pandas.Series'', ''numpy.arange'']
        @ replicate (length cutoffs) ''uplift_at_k''
        @ [''pandas.Series'', ''DataFrame.loc.__setitem__'', ''DataFrame.loc.__setitem__'',
           ''Pipeline.predict'', ''DataFrame.__setitem__'', ''os.path.join'',
           ''Series.to_csv'', ''os.path.join'', ''Series.to_csv'', ''os.path.join'',
           ''DataFrame.to_csv'']))"
  by (intro conjI train_run0 train_steps_in_order [OF train_run0])

text \<open>
  Claim C2 as stated fails: in the run of \<open>train\<close> on the concrete library, no scoring
  call precedes \<open>pickle.dump\<close>.
\<close>

theorem train_persists_before_scoring:
  "train library0 ''run'' config0 world2 = (Inr (), world3) \<and>
   Returns ''pickle.dump'' \<in> set (drop (length (calls world2)) (calls world3)) \<and>
   \<not> scored_before_persisted (drop (length (calls world2)) (calls world3))"
  by (simp add: train_run0 world3_def trained_def scored_before_persisted_def)



subsection \<open>The formats of the written files\<close>

text \<open>
  Claim C3, as the code has it. A run that completes changes the files as follows:
  \<open>featurize\<close> writes the computed features as a Parquet file; \<open>train\<close> writes the
  fitted pipeline as a pickle file and the histogram, the metrics and the examples as CSV
  files; \<open>inference\<close> writes the submit file as CSV.
\<close>

theorem task_file_formats:
  "(featurize L name config w = (Inr (), w') \<longrightarrow>
      (\<exists>dp features. datapath w = Some dp \<and>
         fs w' = (fs w)(path_join dp (name @ ''_features.parquet'') \<mapsto> ParquetFile features))) \<and>
   (train L name config w = (Inr (), w') \<longrightarrow>
      (\<exists>ap mp pipeline hist_ss metrics_ss example_df.
         artifactspath w = Some ap \<and> metricspath w = Some mp \<and>
         fs w' = (fs w)
           (path_join ap (name @ ''_pipeline.pkl'') \<mapsto> PickleFile pipeline,
            path_join mp (name @ ''_hist.csv'') \<mapsto> CsvFile (HistCsv hist_ss),
            path_join mp (name @ ''_metrics.csv'') \<mapsto> CsvFile (MetricsCsv metrics_ss),
            path_join mp (name @ ''_examples.csv'') \<mapsto> CsvFile (ExamplesCsv example_df)))) \<and>
   (inference L name config w = (Inr (), w') \<longrightarrow>
      (\<exists>sp customers. submitspath w = Some sp \<and>
         fs w' = (fs w)(path_join sp (name @ ''_submit.csv'') \<mapsto> CsvFile (IndexCsv customers))))"
proof (intro conjI impI)
  assume "featurize L name config w = (Inr (), w')"
  then show "\<exists>dp features. datapath w = Some dp \<and>
         fs w' = (fs w)(path_join dp (name @ ''_features.parquet'') \<mapsto> ParquetFile features)"
    unfolding featurize_def by (clarsimp simp: run_Inr) (intro exI, rule refl)
next
  assume "train L name config w = (Inr (), w')"
  then show "\<exists>ap mp pipeline hist_ss metrics_ss example_df.
         artifactspath w = Some ap \<and> metricspath w = Some mp \<and>
         fs w' = (fs w)
           (path_join ap (name @ ''_pipeline.pkl'') \<mapsto> PickleFile pipeline,
            path_join mp (name @ ''_hist.csv'') \<mapsto> CsvFile (HistCsv hist_ss),
            path_join mp (name @ ''_metrics.csv'') \<mapsto> CsvFile (MetricsCsv metrics_ss),
            path_join mp (name @ ''_examples.csv'') \<mapsto> CsvFile (ExamplesCsv example_df))"
    unfolding train_def
    apply (clarsimp simp: run_Inr split: if_splits)
    apply (intro exI)
    apply (rule refl)
    done
next
  assume "inference L name config w = (Inr (), w')"
  then show "\<exists>sp customers. submitspath w = Some sp \<and>
         fs w' = (fs w)(path_join sp (name @ ''_submit.csv'') \<mapsto> CsvFile (IndexCsv customers))"
    unfolding inference_def by (clarsimp simp: run_Inr) (intro exI, rule refl)
qed

theorem task_file_formats_witness:
  "(\<exists>dp features. datapath world1 = Some dp \<and>
      fs (snd (featurize library0 ''run'' config0 world1)) =
        (fs world1)(path_join dp (''run'' @ ''_features.parquet'') \<mapsto> ParquetFile features)) \<and>
   (\<exists>ap mp pipeline hist_ss metrics_ss example_df.
      artifactspath world2 = Some ap \<and> metricspath world2 = Some mp \<and>
      fs world3 = (fs world2)
        (path_join ap (''run'' @ ''_pipeline.pkl'') \<mapsto> PickleFile pipeline,
         path_join mp (''run'' @ ''_hist.csv'') \<mapsto> CsvFile (HistCsv hist_ss),
         path_join mp (''run'' @ ''_metrics.csv'') \<mapsto> CsvFile (MetricsCsv metrics_ss),
         path_join mp (''run'' @ ''_examples.csv'') \<mapsto> CsvFile (ExamplesCsv example_df))) \<and>
   (\<exists>sp customers. submitspath world2 = Some sp \<and>
      fs (snd (inference library0 ''run'' config0 world2)) =
        (fs world2)(path_join sp (''run'' @ ''_submit.csv'') \<mapsto> CsvFile (IndexCsv customers)))"
proof (intro conjI)
  show "\<exists>dp features. datapath world1 = Some dp \<and>
      fs (snd (featurize library0 ''run'' config0 world1)) =
        (fs world1)(path_join dp (''run'' @ ''_features.parquet'') \<mapsto> ParquetFile features)"
    using task_file_formats [of library0 "''run''" config0 world1
        "snd (featurize library0 ''run'' config0 world1)"]
    by (simp add: featurize_run0)
  show "\<exists>ap mp pipeline hist_ss metrics_ss example_df.
      artifactspath world2 = Some ap \<and> metricspath world2 = Some mp \<and>
      fs world3 = (fs world2)
        (path_join ap (''run'' @ ''_pipeline.pkl'') \<mapsto> PickleFile pipeline,
         path_join mp (''run'' @ ''_hist.csv'') \<mapsto> CsvFile (HistCsv hist_ss),
         path_join mp (''run'' @ ''_metrics.csv'') \<mapsto> CsvFile (MetricsCsv metrics_ss),
         path_join mp (''run'' @ ''_examples.csv'') \<mapsto> CsvFile (ExamplesCsv example_df))"
    using task_file_formats [of library0 "''run''" config0 world2 world3]
    by (simp only: train_run0 simp_thms)
  show "\<exists>sp customers. submitspath world2 = Some sp \<and>
      fs (snd (inference library0 ''run'' config0 world2)) =
        (fs world2)(path_join sp (''run'' @ ''_submit.csv'') \<mapsto> CsvFile (IndexCsv customers))"
    using task_file_formats [of library0 "''run''" config0 world2
        "snd (inference library0 ''run'' config0 world2)"]
    by (simp add: inference_run0)
qed

text \<open>
  Claim C3 as stated fails for \<open>featurize\<close>: the file it writes is a Parquet file.
\<close>

theorem featurize_writes_parquet:
  "featurize library0 ''run'' config0 world1 =
     (Inr (), world1\<lparr>fs := (fs world1)(''wd/data/run_features.parquet'' \<mapsto> ParquetFile frame0),
                     calls := calls world1 @ map Returns [''compute_features'', ''os.path.join'',
                                                          ''DataFrame.to_parquet'']\<rparr>) \<and>
   \<not> writes_only_csv world1
       (world1\<lparr>fs := (fs world1)(''wd/data/run_features.parquet'' \<mapsto> ParquetFile frame0),
               calls := calls world1 @ map Returns [''compute_features'', ''os.path.join'',
                                                    ''DataFrame.to_parquet'']\<rparr>)"
proof -
  have "\<not> writes_only_csv world1
       (world1\<lparr>fs := (fs world1)(''wd/data/run_features.parquet'' \<mapsto> ParquetFile frame0),
               calls := calls world1 @ map Returns [''compute_features'', ''os.path.join'',
                                                    ''DataFrame.to_parquet'']\<rparr>)"
    unfolding writes_only_csv_def
    by (simp add: world1_def)
  then show ?thesis by (simp add: featurize_run0)
qed

subsection \<open>Errors are those of the library calls\<close>

lemma outcome_logged_append:
  "list_all returned evs \<Longrightarrow> outcome_logged evs' r \<Longrightarrow> outcome_logged (evs @ evs') r"
  by (cases r) (auto simp: outcome_logged_def)

lemma propagates_ret: "propagates (ret x)"
  by (simp add: propagates_def ret_def outcome_logged_def)

lemma propagates_call:
  assumes "quiet act"
  shows "propagates (call nm act)"
  unfolding propagates_def
proof
  fix w
  obtain r v where av: "act w = (r, v)" by (cases "act w")
  with assms have cv: "calls v = calls w" by (simp add: quiet_def) (metis snd_conv)
  show "\<exists>evs. calls (snd (call nm act w)) = calls w @ evs \<and> outcome_logged evs (fst (call nm act w))"
    using av cv by (cases r) (auto simp: call_def outcome_logged_def returned_def)
qed

lemma propagates_lib: "propagates (lib nm r)"
  unfolding lib_def by (rule propagates_call) (simp add: quiet_def)

lemma propagates_bnd:
  assumes m: "propagates m" and f: "\<And>x. propagates (f x)"
  shows "propagates (bnd m f)"
  unfolding propagates_def
proof
  fix w
  obtain r v where mw: "m w = (r, v)" by (cases "m w")
  from m obtain evs where evs: "calls v = calls w @ evs" "outcome_logged evs r"
    unfolding propagates_def using mw by (metis fst_conv snd_conv)
  show "\<exists>evs. calls (snd (bnd m f w)) = calls w @ evs \<and> outcome_logged evs (fst (bnd m f w))"
  proof (cases r)
    case (Inl e)
    then have "bnd m f w = (Inl e, v)" using mw by (simp add: bnd_def)
    with evs Inl show ?thesis by (auto simp: outcome_logged_def)
  next
    case (Inr x)
    then have run: "bnd m f w = f x v" using mw by (simp add: bnd_def)
    from f [of x] obtain evs' where
      evs': "calls (snd (f x v)) = calls v @ evs'" "outcome_logged evs' (fst (f x v))"
      unfolding propagates_def by blast
    from evs Inr have "list_all returned evs" by (simp add: outcome_logged_def)
    with evs' have "outcome_logged (evs @ evs') (fst (f x v))"
      by (simp add: outcome_logged_append)
    moreover have "calls (snd (f x v)) = calls w @ (evs @ evs')"
      using evs evs' by simp
    ultimately show ?thesis unfolding run by blast
  qed
qed

lemma propagates_case_prod:
  "(\<And>a b. propagates (f a b)) \<Longrightarrow> propagates (case_prod f x)"
  by (cases x) simp

lemma propagates_if:
  "propagates a \<Longrightarrow> propagates b \<Longrightarrow> propagates (if c then a else b)"
  by simp

lemma propagates_metrics_at: "propagates (metrics_at L u wv yv ks)"
  by (induction ks) (auto intro!: propagates_ret propagates_bnd propagates_lib)

lemma quiet_acts:
  "quiet (global_join g b)" "quiet (dd_read_parquet p)" "quiet (dd_read_csv p)"
  "quiet (to_parquet f p)" "quiet (to_csv obj p)" "quiet (open_wb p)" "quiet (open_rb p)"
  "quiet (pickle_dump x p)" "quiet (pickle_load p)" "quiet (os_path_exists p)" "quiet (os_mkdir p)"
  "quiet (\<lambda>w. (compute_features L cs (engine w), w))"
  by (auto simp: quiet_def global_join_def dd_read_parquet_def dd_read_csv_def to_parquet_def
      to_csv_def open_wb_def open_rb_def pickle_dump_def pickle_load_def os_path_exists_def
      os_mkdir_def
      split: option.splits content.splits csv_object.splits)

lemmas propagates_intros = propagates_bnd propagates_ret propagates_lib propagates_call
  propagates_case_prod propagates_if propagates_metrics_at quiet_acts

text \<open>
  Claim C7. \<open>featurize\<close>, \<open>train\<close> and \<open>inference\<close> propagate errors: whenever one of
  them ends with an error, that error is the one raised by the last library call it made,
  and every call before it returned; whenever one of them completes, no call has raised.
  So none of the three catches an exception, and none raises one of its own.
\<close>

theorem no_failure_handling:
  "propagates (featurize L name config) \<and> propagates (train L name config) \<and>
   propagates (inference L name config)"
  unfolding featurize_def train_def inference_def
  by (intro conjI propagates_intros)

text \<open>
  For instance \<open>inference\<close> where there is no features file: the error of
  \<open>dd.read_parquet\<close> is the error of the task.
\<close>

theorem no_failure_handling_witness:
  "fst (inference library0 ''run'' config0 world1) =
     Inl (FileNotFoundError ''wd/data/run_features.parquet'') \<and>
   (\<exists>evs. calls (snd (inference library0 ''run'' config0 world1)) = calls world1 @ evs \<and>
      outcome_logged evs (fst (inference library0 ''run'' config0 world1)))"
proof (intro conjI)
  show "fst (inference library0 ''run'' config0 world1) =
     Inl (FileNotFoundError ''wd/data/run_features.parquet'')"
    by (simp add: inference_def run_simps concrete_defs)
  from no_failure_handling [where L = library0 and name = "''run''" and config = config0]
  have "propagates (inference library0 ''run'' config0)" by simp
  then show "\<exists>evs. calls (snd (inference library0 ''run'' config0 world1)) = calls world1 @ evs \<and>
      outcome_logged evs (fst (inference library0 ''run'' config0 world1))"
    unfolding propagates_def by blast
qed

subsection \<open>Two runs of \<open>train\<close>\<close>

lemma apply_effects_Nil [simp]: "apply_effects [] w = w"
  by (simp add: apply_effects_def)

lemma apply_effects_append: "apply_effects (xs @ ys) w = apply_effects ys (apply_effects xs w)"
  by (simp add: apply_effects_def)

lemma apply_effects_single [simp]: "apply_effects [x] w = apply_effect w x"
  by (simp add: apply_effects_def)

lemma alike_apply_effect: "alike name w1 w2 \<Longrightarrow> alike name (apply_effect w1 x) (apply_effect w2 x)"
  by (cases x) (auto simp: alike_def features_file_def split: option.splits)

lemma alike_apply_effects:
  "alike name w1 w2 \<Longrightarrow> alike name (apply_effects effs w1) (apply_effects effs w2)"
  unfolding apply_effects_def
  by (induction effs arbitrary: w1 w2) (simp_all add: alike_apply_effect)

lemma same_runI:
  "m w1 = (r, apply_effects effs w1) \<Longrightarrow> m w2 = (r, apply_effects effs w2) \<Longrightarrow> same_run m m w1 w2"
  unfolding same_run_def by blast

lemma determined_ret: "determined name (ret x)"
  unfolding determined_def ret_def by (auto intro: same_runI [where effs = "[]"])

lemma determined_bnd:
  fixes m :: "('a, 'p, 'e) task"
  assumes m: "determined name m" and f: "\<And>x. determined name (f x)"
  shows "determined name (bnd m f)"
  unfolding determined_def
proof (intro allI impI)
  fix w1 w2 :: "('p, 'e) world"
  assume al: "alike name w1 w2"
  with m obtain r effs where
    run: "m w1 = (r, apply_effects effs w1)" "m w2 = (r, apply_effects effs w2)"
    unfolding determined_def same_run_def by blast
  show "same_run (bnd m f) (bnd m f) w1 w2"
  proof (cases r)
    case (Inl e)
    with run show ?thesis by (auto simp: bnd_def intro: same_runI)
  next
    case (Inr x)
    from al have "alike name (apply_effects effs w1) (apply_effects effs w2)"
      by (rule alike_apply_effects)
    with f [of x] obtain r' effs' where
      "f x (apply_effects effs w1) = (r', apply_effects effs' (apply_effects effs w1))"
      "f x (apply_effects effs w2) = (r', apply_effects effs' (apply_effects effs w2))"
      unfolding determined_def same_run_def by blast
    with run Inr show ?thesis
      by (auto simp: bnd_def apply_effects_append intro: same_runI [where effs = "effs @ effs'"])
  qed
qed

lemma determined_call:
  fixes act :: "('a, 'p, 'e) task"
  assumes "determined name act"
  shows "determined name (call nm act)"
  unfolding determined_def
proof (intro allI impI)
  fix w1 w2 :: "('p, 'e) world"
  assume "alike name w1 w2"
  with assms obtain r effs where
    run: "act w1 = (r, apply_effects effs w1)" "act w2 = (r, apply_effects effs w2)"
    unfolding determined_def same_run_def by blast
  show "same_run (call nm act) (call nm act) w1 w2"
  proof (cases r)
    case (Inl e)
    with run show ?thesis
      by (auto simp: call_def apply_effects_append intro: same_runI [where effs = "effs @ [Logged (Raises nm e)]"])
  next
    case (Inr x)
    with run show ?thesis
      by (auto simp: call_def apply_effects_append intro: same_runI [where effs = "effs @ [Logged (Returns nm)]"])
  qed
qed

lemma determined_pure: "determined name (\<lambda>w. (r, w))"
  unfolding determined_def by (auto intro: same_runI [where effs = "[]"])

lemma determined_lib: "determined name (lib nm r)"
  unfolding lib_def by (intro determined_call determined_pure)

lemma determined_writes:
  "determined name (to_csv obj p)" "determined name (to_parquet f p)"
  "determined name (open_wb p)" "determined name (pickle_dump x p)"
  unfolding determined_def to_csv_def to_parquet_def open_wb_def pickle_dump_def
  by (auto intro: same_runI [where effs = "[Wrote p c]" for c])

lemma determined_global_join:
  "determined name (global_join datapath b)" "determined name (global_join metricspath b)"
  "determined name (global_join artifactspath b)"
  unfolding determined_def global_join_def alike_def
  by (auto intro: same_runI [where effs = "[]"])

lemma determined_read_features:
  "determined name
     (bnd (call nm (global_join datapath (name @ ''_features.parquet''))) (\<lambda>p.
      call nm' (dd_read_parquet p)))"
  unfolding determined_def
proof (intro allI impI)
  fix w1 w2 :: "('p, 'e) world"
  assume al: "alike name w1 w2"
  let ?m = "bnd (call nm (global_join datapath (name @ ''_features.parquet''))) (\<lambda>p.
      call nm' (dd_read_parquet p))"
  show "same_run ?m ?m w1 w2"
  proof (cases "datapath w1")
    case None
    with al have "datapath w2 = None" by (simp add: alike_def)
    with None show ?thesis
      by (intro same_runI [where r = "Inl TypeError" and effs = "[Logged (Raises nm TypeError)]"])
        (simp_all add: bnd_def call_def global_join_def os_path_join_def)
  next
    case (Some dp)
    with al have dp2: "datapath w2 = Some dp" by (simp add: alike_def)
    let ?p = "path_join dp (name @ ''_features.parquet'')"
    from al Some dp2 have same: "fs w1 ?p = fs w2 ?p"
      by (simp add: alike_def features_file_def)
    obtain r where r: "fst (dd_read_parquet ?p w1) = r" by simp
    have r1: "dd_read_parquet ?p (w1\<lparr>calls := calls w1 @ [Returns nm]\<rparr>)
                = (r, w1\<lparr>calls := calls w1 @ [Returns nm]\<rparr>)"
      using r by (auto simp: dd_read_parquet_def split: option.splits content.splits)
    have r2: "dd_read_parquet ?p (w2\<lparr>calls := calls w2 @ [Returns nm]\<rparr>)
                = (r, w2\<lparr>calls := calls w2 @ [Returns nm]\<rparr>)"
      using r same by (auto simp: dd_read_parquet_def split: option.splits content.splits)
    show ?thesis
    proof (cases r)
      case (Inl e)
      with Some dp2 r1 r2 show ?thesis
        by (intro same_runI [where r = r and effs = "[Logged (Returns nm), Logged (Raises nm' e)]"])
          (simp_all add: bnd_def call_def global_join_def os_path_join_def apply_effects_def)
    next
      case (Inr x)
      with Some dp2 r1 r2 show ?thesis
        by (intro same_runI [where r = r and effs = "[Logged (Returns nm), Logged (Returns nm')]"])
          (simp_all add: bnd_def call_def global_join_def os_path_join_def apply_effects_def)
    qed
  qed
qed

lemma determined_case_prod:
  "(\<And>a b. determined name (f a b)) \<Longrightarrow> determined name (case_prod f x)"
  by (cases x) simp

lemma determined_metrics_at: "determined name (metrics_at L u wv yv ks)"
  by (induction ks) (auto intro!: determined_ret determined_bnd determined_lib)


lemmas determined_intros = determined_bnd determined_ret determined_lib determined_call
  determined_case_prod determined_metrics_at determined_writes determined_global_join

lemma determined_train: "determined name (train L name config)"
  unfolding train_def
  apply (subst bnd_assoc [symmetric])
  apply (rule determined_bnd)
   apply (rule determined_read_features)
  apply (intro determined_intros)
  done

lemma metrics_at_cong: "uplift_at_k L' = uplift_at_k L \<Longrightarrow> metrics_at L' = metrics_at L"
proof (intro ext)
  fix u wv yv ks
    and w :: "('a, 'c) world"
  assume eq: "uplift_at_k L' = uplift_at_k L"
  have "metrics_at L' u wv yv ks = (metrics_at L u wv yv ks :: (cell list, 'a, 'c) task)"
    by (induction ks) (simp_all add: eq)
  then show "metrics_at L' u wv yv ks w = metrics_at L u wv yv ks w" by simp
qed

lemma train_same_at_seed:
  assumes "same_at_seed 110894 L L'"
  shows "train L' name config = train L name config"
proof -
  from assms have
    s: "\<And>f frac. sample L' f frac 110894 = sample L f frac 110894" and
    t: "\<And>X y w ts strat. train_test_split L' X y w ts 110894 strat
          = train_test_split L X y w ts 110894 strat" and
    rest: "build_pipeline L' = build_pipeline L" "sk_Pipeline L' = sk_Pipeline L"
      "fit L' = fit L" "predict L' = predict L" "np_histogram L' = np_histogram L"
      "np_around L' = np_around L" "np_arange L' = np_arange L" and
    u: "uplift_at_k L' = uplift_at_k L"
    by (simp_all add: same_at_seed_def)
  show ?thesis
    unfolding train_def random_state_def
    by (simp only: s t rest metrics_at_cong [OF u])
qed

lemma train_same_run:
  assumes "datapath w1 = datapath w2" and "metricspath w1 = metricspath w2"
    and "artifactspath w1 = artifactspath w2"
    and "features_file name w1 = features_file name w2"
    and "same_at_seed 110894 L L'"
  shows "same_run (train L name config) (train L' name config) w1 w2"
proof -
  have "alike name w1 w2" using assms(1-4) by (simp add: alike_def)
  with determined_train [of name L config] have "same_run (train L name config) (train L name config) w1 w2"
    by (simp add: determined_def)
  then show ?thesis by (simp add: train_same_at_seed [OF assms(5)])
qed

text \<open>What a run of \<open>train\<close> that completes has sampled, split and written as examples.\<close>

lemma train_sample_and_split:
  assumes "train L name config w = (Inr (), w')"
  shows "\<exists>dp mp F df flag amt disc X_train X_test y_train y_test w_train w_test labelled example_df.
           datapath w = Some dp \<and> metricspath w = Some mp \<and>
           fs w (path_join dp (name @ ''_features.parquet'')) = Some (ParquetFile F) \<and>
           sample L F (sample_frac config) 110894 = Inr df \<and>
           map_of (cols df) ''target_group_flag'' = Some flag \<and>
           map_of (cols df) ''target_purchase_amt'' = Some amt \<and>
           map_of (cols df) ''target_discount_sum'' = Some disc \<and>
           fs w' (path_join mp (name @ ''_examples.csv'')) = Some (CsvFile (ExamplesCsv example_df)) \<and>
           ex_X example_df = loc_columns_from 3 df \<and>
           ex_w example_df = map (\<lambda>g. Some (or_zero g)) flag \<and>
           ex_y example_df =
             map (\<lambda>(a, d, g). Some (28 * or_zero a - or_zero d - or_zero g)) (zip amt (zip disc flag)) \<and>
           train_test_split L (ex_X example_df)
               \<lparr>s_index = index df, s_values = ex_y example_df\<rparr>
               \<lparr>s_index = index df, s_values = ex_w example_df\<rparr>
               (validation_test_size config) 110894
               \<lparr>s_index = index df, s_values = ex_w example_df\<rparr>
             = Inr (X_train, X_test, y_train, y_test, w_train, w_test) \<and>
           loc_set_sample (index X_train) ''train'' (index df) (replicate (length (index df)) None)
             = Inr labelled \<and>
           loc_set_sample (index X_test) ''test'' (index df) labelled = Inr (ex_sample example_df)"
  using assms unfolding train_def random_state_def
  by (clarsimp simp: run_Inr loc_column_Inr_iff target_series_filled treatment_series
      loc_columns_from_def split: if_splits)

text \<open>
  Claim C9, as the code has it. \<open>train\<close> passes the random state 110894 to \<open>sample\<close>
  and to \<open>train_test_split\<close>, whatever the config is. So of two runs of \<open>train\<close> that
  complete, with the same name and config, in worlds with the same path globals and the
  same features file, and with libraries in which \<open>sample\<close> and \<open>train_test_split\<close>
  do the same for the random state 110894: both have drawn the same sample \<open>df\<close>, both
  have split the same \<open>X\<close>, \<open>y\<close> and \<open>w\<close> into the same six parts, and the examples
  files that they have written agree in the feature columns, in \<open>w\<close>, in \<open>y\<close> and in
  the column \<open>sample\<close> that marks the rows of the training and of the test part. No
  random state is passed to \<open>build_pipeline\<close>, \<open>fit\<close>, \<open>predict\<close> and
  \<open>uplift_at_k\<close>: only when these too do the same in both runs do the two runs end with
  the same result after the same library calls and the same file writes.
\<close>

theorem train_fixed_random_state:
  "(train L1 name config w1 = (Inr (), w1') \<and> train L2 name config w2 = (Inr (), w2') \<and>
    datapath w1 = datapath w2 \<and> metricspath w1 = metricspath w2 \<and>
    features_file name w1 = features_file name w2 \<and> same_seeded 110894 L1 L2 \<longrightarrow>
    (\<exists>dp mp F df X_train X_test y_train y_test w_train w_test ex1 ex2.
       datapath w1 = Some dp \<and> metricspath w1 = Some mp \<and>
       fs w1 (path_join dp (name @ ''_features.parquet'')) = Some (ParquetFile F) \<and>
       fs w2 (path_join dp (name @ ''_features.parquet'')) = Some (ParquetFile F) \<and>
       sample L1 F (sample_frac config) 110894 = Inr df \<and>
       sample L2 F (sample_frac config) 110894 = Inr df \<and>
       fs w1' (path_join mp (name @ ''_examples.csv'')) = Some (CsvFile (ExamplesCsv ex1)) \<and>
       fs w2' (path_join mp (name @ ''_examples.csv'')) = Some (CsvFile (ExamplesCsv ex2)) \<and>
       ex_X ex1 = loc_columns_from 3 df \<and>
       train_test_split L1 (ex_X ex1)
           \<lparr>s_index = index df, s_values = ex_y ex1\<rparr> \<lparr>s_index = index df, s_values = ex_w ex1\<rparr>
           (validation_test_size config) 110894 \<lparr>s_index = index df, s_values = ex_w ex1\<rparr>
         = Inr (X_train, X_test, y_train, y_test, w_train, w_test) \<and>
       train_test_split L2 (ex_X ex1)
           \<lparr>s_index = index df, s_values = ex_y ex1\<rparr> \<lparr>s_index = index df, s_values = ex_w ex1\<rparr>
           (validation_test_size config) 110894 \<lparr>s_index = index df, s_values = ex_w ex1\<rparr>
         = Inr (X_train, X_test, y_train, y_test, w_train, w_test) \<and>
       (\<exists>labelled.
          loc_set_sample (index X_train) ''train'' (index df) (replicate (length (index df)) None)
            = Inr labelled \<and>
          loc_set_sample (index X_test) ''test'' (index df) labelled = Inr (ex_sample ex1)) \<and>
       ex_X ex2 = ex_X ex1 \<and> ex_w ex2 = ex_w ex1 \<and> ex_y ex2 = ex_y ex1 \<and>
       ex_sample ex2 = ex_sample ex1)) \<and>
   (datapath w1 = datapath w2 \<and> metricspath w1 = metricspath w2 \<and>
    artifactspath w1 = artifactspath w2 \<and> features_file name w1 = features_file name w2 \<and>
    same_at_seed 110894 L1 L2 \<longrightarrow>
    same_run (train L1 name config) (train L2 name config) w1 w2)"
proof (intro conjI impI)
  assume "datapath w1 = datapath w2 \<and> metricspath w1 = metricspath w2 \<and>
    artifactspath w1 = artifactspath w2 \<and> features_file name w1 = features_file name w2 \<and>
    same_at_seed 110894 L1 L2"
  then show "same_run (train L1 name config) (train L2 name config) w1 w2"
    by (intro train_same_run) simp_all
next
  assume a: "train L1 name config w1 = (Inr (), w1') \<and> train L2 name config w2 = (Inr (), w2') \<and>
    datapath w1 = datapath w2 \<and> metricspath w1 = metricspath w2 \<and>
    features_file name w1 = features_file name w2 \<and> same_seeded 110894 L1 L2"
  then have seeded:
    "\<And>f frac. sample L2 f frac 110894 = sample L1 f frac 110894"
    "\<And>X y w ts strat. train_test_split L2 X y w ts 110894 strat
        = train_test_split L1 X y w ts 110894 strat"
    by (simp_all add: same_seeded_def)
  from a have run1: "train L1 name config w1 = (Inr (), w1')"
    and run2: "train L2 name config w2 = (Inr (), w2')"
    and globals: "datapath w2 = datapath w1" "metricspath w2 = metricspath w1"
    and same_file: "features_file name w2 = features_file name w1"
    by simp_all
  from train_sample_and_split [OF run1]
  obtain dp mp F df flag amt disc X_train X_test y_train y_test w_train w_test labelled ex1 where
    r1: "datapath w1 = Some dp" "metricspath w1 = Some mp"
      "fs w1 (path_join dp (name @ ''_features.parquet'')) = Some (ParquetFile F)"
      "sample L1 F (sample_frac config) 110894 = Inr df"
      "map_of (cols df) ''target_group_flag'' = Some flag"
      "map_of (cols df) ''target_purchase_amt'' = Some amt"
      "map_of (cols df) ''target_discount_sum'' = Some disc"
      "fs w1' (path_join mp (name @ ''_examples.csv'')) = Some (CsvFile (ExamplesCsv ex1))"
      "ex_X ex1 = loc_columns_from 3 df"
      "ex_w ex1 = map (\<lambda>g. Some (or_zero g)) flag"
      "ex_y ex1 =
         map (\<lambda>(a, d, g). Some (28 * or_zero a - or_zero d - or_zero g)) (zip amt (zip disc flag))"
      "train_test_split L1 (ex_X ex1)
           \<lparr>s_index = index df, s_values = ex_y ex1\<rparr> \<lparr>s_index = index df, s_values = ex_w ex1\<rparr>
           (validation_test_size config) 110894 \<lparr>s_index = index df, s_values = ex_w ex1\<rparr>
         = Inr (X_train, X_test, y_train, y_test, w_train, w_test)"
      "loc_set_sample (index X_train) ''train'' (index df) (replicate (length (index df)) None)
         = Inr labelled"
      "loc_set_sample (index X_test) ''test'' (index df) labelled = Inr (ex_sample ex1)"
    by blast
  from train_sample_and_split [OF run2]
  obtain dp' mp' F' df' flag' amt' disc' X_train' X_test' y_train' y_test' w_train' w_test'
      labelled' ex2 where
    r2: "datapath w2 = Some dp'" "metricspath w2 = Some mp'"
      "fs w2 (path_join dp' (name @ ''_features.parquet'')) = Some (ParquetFile F')"
      "sample L2 F' (sample_frac config) 110894 = Inr df'"
      "map_of (cols df') ''target_group_flag'' = Some flag'"
      "map_of (cols df') ''target_purchase_amt'' = Some amt'"
      "map_of (cols df') ''target_discount_sum'' = Some disc'"
      "fs w2' (path_join mp' (name @ ''_examples.csv'')) = Some (CsvFile (ExamplesCsv ex2))"
      "ex_X ex2 = loc_columns_from 3 df'"
      "ex_w ex2 = map (\<lambda>g. Some (or_zero g)) flag'"
      "ex_y ex2 =
         map (\<lambda>(a, d, g). Some (28 * or_zero a - or_zero d - or_zero g)) (zip amt' (zip disc' flag'))"
      "train_test_split L2 (ex_X ex2)
           \<lparr>s_index = index df', s_values = ex_y ex2\<rparr> \<lparr>s_index = index df', s_values = ex_w ex2\<rparr>
           (validation_test_size config) 110894 \<lparr>s_index = index df', s_values = ex_w ex2\<rparr>
         = Inr (X_train', X_test', y_train', y_test', w_train', w_test')"
      "loc_set_sample (index X_train') ''train'' (index df') (replicate (length (index df')) None)
         = Inr labelled'"
      "loc_set_sample (index X_test') ''test'' (index df') labelled' = Inr (ex_sample ex2)"
    by blast
  from globals r1(1,2) r2(1,2) have paths: "dp' = dp" "mp' = mp" by simp_all
  from same_file r1(1,3) r2(1,3) paths have F: "F' = F"
    by (simp add: features_file_def)
  from r2(4) F seeded(1) r1(4) have df: "df' = df" by simp
  from r1(5-7) r2(5-7) df have cols: "flag' = flag" "amt' = amt" "disc' = disc" by simp_all
  from r1(9-11) r2(9-11) df cols have ex: "ex_X ex2 = ex_X ex1" "ex_w ex2 = ex_w ex1" "ex_y ex2 = ex_y ex1"
    by simp_all
  from r2(12) ex df seeded(2) r1(12) have parts: "X_train' = X_train" "X_test' = X_test"
    by simp_all
  from r2(13) parts df r1(13) have lab: "labelled' = labelled" by simp
  from r2(14) parts df lab r1(14) have smp: "ex_sample ex2 = ex_sample ex1" by simp
  from r2(12) ex df seeded(2) have split2:
    "train_test_split L2 (ex_X ex1)
           \<lparr>s_index = index df, s_values = ex_y ex1\<rparr> \<lparr>s_index = index df, s_values = ex_w ex1\<rparr>
           (validation_test_size config) 110894 \<lparr>s_index = index df, s_values = ex_w ex1\<rparr>
         = Inr (X_train, X_test, y_train, y_test, w_train, w_test)"
    using r1(12) by simp
  from r2(3) paths F have f2: "fs w2 (path_join dp (name @ ''_features.parquet'')) = Some (ParquetFile F)"
    by simp
  from r2(4) F df have s2: "sample L2 F (sample_frac config) 110894 = Inr df" by simp
  from r2(8) paths have e2: "fs w2' (path_join mp (name @ ''_examples.csv'')) = Some (CsvFile (ExamplesCsv ex2))"
    by simp
  show "\<exists>dp mp F df X_train X_test y_train y_test w_train w_test ex1 ex2.
       datapath w1 = Some dp \<and> metricspath w1 = Some mp \<and>
       fs w1 (path_join dp (name @ ''_features.parquet'')) = Some (ParquetFile F) \<and>
       fs w2 (path_join dp (name @ ''_features.parquet'')) = Some (ParquetFile F) \<and>
       sample L1 F (sample_frac config) 110894 = Inr df \<and>
       sample L2 F (sample_frac config) 110894 = Inr df \<and>
       fs w1' (path_join mp (name @ ''_examples.csv'')) = Some (CsvFile (ExamplesCsv ex1)) \<and>
       fs w2' (path_join mp (name @ ''_examples.csv'')) = Some (CsvFile (ExamplesCsv ex2)) \<and>
       ex_X ex1 = loc_columns_from 3 df \<and>
       train_test_split L1 (ex_X ex1)
           \<lparr>s_index = index df, s_values = ex_y ex1\<rparr> \<lparr>s_index = index df, s_values = ex_w ex1\<rparr>
           (validation_test_size config) 110894 \<lparr>s_index = index df, s_values = ex_w ex1\<rparr>
         = Inr (X_train, X_test, y_train, y_test, w_train, w_test) \<and>
       train_test_split L2 (ex_X ex1)
           \<lparr>s_index = index df, s_values = ex_y ex1\<rparr> \<lparr>s_index = index df, s_values = ex_w ex1\<rparr>
           (validation_test_size config) 110894 \<lparr>s_index = index df, s_values = ex_w ex1\<rparr>
         = Inr (X_train, X_test, y_train, y_test, w_train, w_test) \<and>
       (\<exists>labelled.
          loc_set_sample (index X_train) ''train'' (index df) (replicate (length (index df)) None)
            = Inr labelled \<and>
          loc_set_sample (index X_test) ''test'' (index df) labelled = Inr (ex_sample ex1)) \<and>
       ex_X ex2 = ex_X ex1 \<and> ex_w ex2 = ex_w ex1 \<and> ex_y ex2 = ex_y ex1 \<and>
       ex_sample ex2 = ex_sample ex1"
    using r1(1-4,8,9,12-14) f2 s2 e2 split2 ex smp by blast
qed

text \<open>
  For instance the runs with \<open>library0\<close> and with \<open>library1\<close>, whose \<open>fit\<close> differ;
  and the runs with \<open>library0\<close> and with a library whose \<open>sample\<close> differs for other
  random states, in worlds that differ in what \<open>train\<close> does not read.
\<close>

theorem train_fixed_random_state_witness:
  "(\<exists>dp mp F df X_train X_test y_train y_test w_train w_test ex1 ex2.
       datapath world2 = Some dp \<and> metricspath world2 = Some mp \<and>
       fs world2 (path_join dp (''run'' @ ''_features.parquet'')) = Some (ParquetFile F) \<and>
       fs world2 (path_join dp (''run'' @ ''_features.parquet'')) = Some (ParquetFile F) \<and>
       sample library0 F (sample_frac config0) 110894 = Inr df \<and>
       sample library1 F (sample_frac config0) 110894 = Inr df \<and>
       fs world3 (path_join mp (''run'' @ ''_examples.csv'')) = Some (CsvFile (ExamplesCsv ex1)) \<and>
       fs world4 (path_join mp (''run'' @ ''_examples.csv'')) = Some (CsvFile (ExamplesCsv ex2)) \<and>
       ex_X ex1 = loc_columns_from 3 df \<and>
       train_test_split library0 (ex_X ex1)
           \<lparr>s_index = index df, s_values = ex_y ex1\<rparr> \<lparr>s_index = index df, s_values = ex_w ex1\<rparr>
           (validation_test_size config0) 110894 \<lparr>s_index = index df, s_values = ex_w ex1\<rparr>
         = Inr (X_train, X_test, y_train, y_test, w_train, w_test) \<and>
       train_test_split library1 (ex_X ex1)
           \<lparr>s_index = index df, s_values = ex_y ex1\<rparr> \<lparr>s_index = index df, s_values = ex_w ex1\<rparr>
           (validation_test_size config0) 110894 \<lparr>s_index = index df, s_values = ex_w ex1\<rparr>
         = Inr (X_train, X_test, y_train, y_test, w_train, w_test) \<and>
       (\<exists>labelled.
          loc_set_sample (index X_train) ''train'' (index df) (replicate (length (index df)) None)
            = Inr labelled \<and>
          loc_set_sample (index X_test) ''test'' (index df) labelled = Inr (ex_sample ex1)) \<and>
       ex_X ex2 = ex_X ex1 \<and> ex_w ex2 = ex_w ex1 \<and> ex_y ex2 = ex_y ex1 \<and>
       ex_sample ex2 = ex_sample ex1) \<and>
   same_run (train library0 ''run'' config0)
     (train (library0\<lparr>sample := \<lambda>f frac seed. if seed = 110894 then Inr f
                                              else Inl (LibraryError ''seed'')\<rparr>) ''run'' config0)
     world2
     (world2\<lparr>engine := [], fs := (fs world2)(''wd/notes'' \<mapsto> EmptyFile), calls := []\<rparr>)"
proof (intro conjI)
  show "same_run (train library0 ''run'' config0)
     (train (library0\<lparr>sample := \<lambda>f frac seed. if seed = 110894 then Inr f
                                              else Inl (LibraryError ''seed'')\<rparr>) ''run'' config0)
     world2
     (world2\<lparr>engine := [], fs := (fs world2)(''wd/notes'' \<mapsto> EmptyFile), calls := []\<rparr>)"
    by (rule train_fixed_random_state [THEN conjunct2, rule_format])
      (simp add: features_file_def same_at_seed_def concrete_defs path_join_def)
  show "\<exists>dp mp F df X_train X_test y_train y_test w_train w_test ex1 ex2.
       datapath world2 = Some dp \<and> metricspath world2 = Some mp \<and>
       fs world2 (path_join dp (''run'' @ ''_features.parquet'')) = Some (ParquetFile F) \<and>
       fs world2 (path_join dp (''run'' @ ''_features.parquet'')) = Some (ParquetFile F) \<and>
       sample library0 F (sample_frac config0) 110894 = Inr df \<and>
       sample library1 F (sample_frac config0) 110894 = Inr df \<and>
       fs world3 (path_join mp (''run'' @ ''_examples.csv'')) = Some (CsvFile (ExamplesCsv ex1)) \<and>
       fs world4 (path_join mp (''run'' @ ''_examples.csv'')) = Some (CsvFile (ExamplesCsv ex2)) \<and>
       ex_X ex1 = loc_columns_from 3 df \<and>
       train_test_split library0 (ex_X ex1)
           \<lparr>s_index = index df, s_values = ex_y ex1\<rparr> \<lparr>s_index = index df, s_values = ex_w ex1\<rparr>
           (validation_test_size config0) 110894 \<lparr>s_index = index df, s_values = ex_w ex1\<rparr>
         = Inr (X_train, X_test, y_train, y_test, w_train, w_test) \<and>
       train_test_split library1 (ex_X ex1)
           \<lparr>s_index = index df, s_values = ex_y ex1\<rparr> \<lparr>s_index = index df, s_values = ex_w ex1\<rparr>
           (validation_test_size config0) 110894 \<lparr>s_index = index df, s_values = ex_w ex1\<rparr>
         = Inr (X_train, X_test, y_train, y_test, w_train, w_test) \<and>
       (\<exists>labelled.
          loc_set_sample (index X_train) ''train'' (index df) (replicate (length (index df)) None)
            = Inr labelled \<and>
          loc_set_sample (index X_test) ''test'' (index df) labelled = Inr (ex_sample ex1)) \<and>
       ex_X ex2 = ex_X ex1 \<and> ex_w ex2 = ex_w ex1 \<and> ex_y ex2 = ex_y ex1 \<and>
       ex_sample ex2 = ex_sample ex1"
  proof (rule train_fixed_random_state [THEN conjunct1, rule_format])
    have "same_seeded 110894 library0 library1"
      by (simp add: same_seeded_def library1_def)
    then show "train library0 ''run'' config0 world2 = (Inr (), world3) \<and>
      train library1 ''run'' config0 world2 = (Inr (), world4) \<and>
      datapath world2 = datapath world2 \<and> metricspath world2 = metricspath world2 \<and>
      features_file ''run'' world2 = features_file ''run'' world2 \<and>
      same_seeded 110894 library0 library1"
      by (simp add: train_run0 train_run1)
  qed
qed

text \<open>
  Claim C9 as stated fails: \<open>fit\<close> is given no random state, and two runs on the same
  features file with the same config, whose \<open>sample\<close> and \<open>train_test_split\<close> do the
  same but whose \<open>fit\<close> ends differently, pickle different pipelines.
\<close>

theorem train_outputs_differ:
  "train library0 ''run'' config0 world2 = (Inr (), world3) \<and>
   train library1 ''run'' config0 world2 = (Inr (), world4) \<and>
   same_seeded 110894 library0 library1 \<and>
   fs world3 ''wd/artifacts/run_pipeline.pkl'' = Some (PickleFile 4) \<and>
   fs world4 ''wd/artifacts/run_pipeline.pkl'' = Some (PickleFile 5) \<and>
   \<not> same_run (train library0 ''run'' config0) (train library1 ''run'' config0) world2 world2"
proof -
  have p3: "fs world3 ''wd/artifacts/run_pipeline.pkl'' = Some (PickleFile 4)"
    by (simp add: world3_def trained_def)
  have p4: "fs world4 ''wd/artifacts/run_pipeline.pkl'' = Some (PickleFile 5)"
    by (simp add: world4_def trained_def)
  from p3 p4 have "world3 \<noteq> world4" by auto
  then have "\<not> same_run (train library0 ''run'' config0) (train library1 ''run'' config0) world2 world2"
    by (auto simp: same_run_def train_run0 train_run1)
  moreover have "same_seeded 110894 library0 library1"
    by (simp add: same_seeded_def library1_def)
  ultimately show ?thesis
    using p3 p4 by (simp add: train_run0 train_run1)
qed

end
